theory Spec2Isabelle
  imports Main "HOL-Library.Word"
begin

unbundle bit_operations_syntax

section \<open>The DC-net entity (package dcnet)\<close>

text \<open>
  Bytes are 8-bit words; a Go \<open>[]byte\<close> is a list of bytes, and a slice that may be
  \<open>nil\<close> is an optional list. Round numbers are Go \<open>int32\<close> values and sizes are Go
  \<open>int\<close> values; both are modelled as \<open>int\<close>: the only arithmetic on a round number
  is the increment inside a loop guarded by \<open>currentRound < roundID\<close>, which cannot
  wrap. A Go panic is a value of \<open>panic\<close>, returned on the left of a sum.
\<close>

type_synonym byte = "8 word"

datatype panic =
    PayloadTooLong
  | RoundInThePast
  | NegativeLength
  | SliceOutOfRange
  | IndexOutOfRange
  | WrongDecodeRound
  | NilPointer
  | MessageSizeTooSmall
  | ContentSizeNotPositive
  | InterfaceConversion
  | NotImplemented

datatype DCNET_ENTITY = DCNET_CLIENT | DCNET_TRUSTEE | DCNET_RELAY

definition DISRUPTION_PROTECTION_CONTRIB_LENGTH :: int where
  "DISRUPTION_PROTECTION_CONTRIB_LENGTH = 32"

text \<open>
  \<open>abstract.Cipher\<close> used as a pseudo-random generator: a deterministic keystream
  together with the number of bytes already consumed. \<open>XORKeyStream(dst, src)\<close> XORs
  the next \<open>len(src)\<close> keystream bytes into \<open>src\<close> and advances the generator.
\<close>

record Cipher =
  keystream :: "nat \<Rightarrow> byte"
  consumed :: nat

definition XORKeyStream :: "Cipher \<Rightarrow> byte list \<Rightarrow> byte list \<times> Cipher" where
  "XORKeyStream c src =
     (map (\<lambda>k. (src ! k) XOR keystream c (consumed c + k)) [0..<length src],
      c\<lparr>consumed := consumed c + length src\<rparr>)"

text \<open>\<open>make([]byte, n)\<close>: a zeroed buffer; Go panics when \<open>n\<close> is negative.\<close>

definition make_bytes :: "int \<Rightarrow> panic + byte list" where
  "make_bytes n = (if n < 0 then Inl NegativeLength else Inr (replicate (nat n) 0))"

record DCNetCipher =
  payload :: "byte list"
  equivocationProtectionTag :: "byte list option"

text \<open>
  The equivocation protection (type \<open>EquivocationProtection\<close>) is not part of the
  sources at hand; the entity holds it as the three operations that the DC-net code
  calls on it.
\<close>

record EquivocationProtection =
  ClientEncryptPayload :: "bool \<Rightarrow> byte list \<Rightarrow> byte list list \<Rightarrow> byte list \<times> byte list"
  TrusteeGetContribution :: "byte list list \<Rightarrow> byte list"
  RelayDecode :: "byte list \<Rightarrow> byte list option list \<Rightarrow> byte list option list \<Rightarrow> byte list"

record DCNetRoundDecoder =
  currentRoundBeingDecoded :: int
  xorBuffer :: "byte list"
  equivTrusteeContribs :: "byte list option list"
  equivClientContribs :: "byte list option list"

record DCNetEntity =
  EntityID :: int
  Entity :: DCNET_ENTITY
  EquivocationProtectionEnabled :: bool
  DisruptionProtectionEnabled :: bool
  DCNetMessageSize :: int
  DCNetContentSize :: int
  sharedKeys :: "Cipher list"
  sharedPRNGs :: "Cipher list"
  currentRound :: int
  DCNetRoundDecoder :: "DCNetRoundDecoder option"
  equivocationProtection :: "EquivocationProtection option"
  equivocationContribLength :: int

text \<open>
  The crypto suite (\<open>config.CryptoSuite\<close>) is outside the sources: its key size, its
  stream cipher constructor, the byte length of a scalar and the constructor of the
  equivocation protection are parameters.
\<close>

record Suite =
  KeySize :: nat
  NewCipher :: "byte list \<Rightarrow> nat \<Rightarrow> byte"
  ScalarLen :: int
  NewEquivocation :: EquivocationProtection

text \<open>
  Seeding one shared generator: \<open>sharedKeys[i].Partial(key, key, nil)\<close> draws
  \<open>keySize\<close> bytes from the shared key, which seed a fresh cipher.
\<close>

definition seedPRNG :: "Suite \<Rightarrow> Cipher \<Rightarrow> Cipher \<times> Cipher" where
  "seedPRNG suite k =
     (let (key, k') = XORKeyStream k (replicate (KeySize suite) 0)
      in (k', \<lparr>keystream = NewCipher suite key, consumed = 0\<rparr>))"

definition NewDCNetEntity ::
  "Suite \<Rightarrow> int \<Rightarrow> DCNET_ENTITY \<Rightarrow> int \<Rightarrow> bool \<Rightarrow> bool \<Rightarrow> Cipher list \<Rightarrow> panic + DCNetEntity" where
  "NewDCNetEntity suite entityID entity messageSize equivocation disruption keys =
     (if disruption \<and> messageSize \<le> DISRUPTION_PROTECTION_CONTRIB_LENGTH
      then Inl MessageSizeTooSmall
      else
        let seeded = (if entity \<noteq> DCNET_RELAY then map (seedPRNG suite) keys else []);
            contrib = (if equivocation then ScalarLen suite else 0);
            e = \<lparr>EntityID = entityID, Entity = entity,
                 EquivocationProtectionEnabled = equivocation,
                 DisruptionProtectionEnabled = disruption,
                 DCNetMessageSize = messageSize,
                 DCNetContentSize = messageSize - contrib,
                 sharedKeys = map fst seeded,
                 sharedPRNGs = map snd seeded,
                 currentRound = 0,
                 DCNetRoundDecoder = None,
                 equivocationProtection =
                   (if equivocation then Some (NewEquivocation suite) else None),
                 equivocationContribLength = contrib\<rparr>
        in if DCNetContentSize e \<le> 0 then Inl ContentSizeNotPositive else Inr e)"

definition GetPayloadSize :: "DCNetEntity \<Rightarrow> int" where
  "GetPayloadSize e =
     (if DisruptionProtectionEnabled e
      then DCNetContentSize e - DISRUPTION_PROTECTION_CONTRIB_LENGTH
      else DCNetContentSize e)"

subsection \<open>Decimal conversion and the disruption HMAC\<close>

definition digit_char :: "nat \<Rightarrow> char" where
  "digit_char d = char_of (of_char (CHR ''0'') + d)"

fun itoa_nat :: "nat \<Rightarrow> string" where
  "itoa_nat n = (if n < 10 then [digit_char n] else itoa_nat (n div 10) @ [digit_char (n mod 10)])"

declare itoa_nat.simps [simp del]

text \<open>\<open>strconv.Itoa\<close>: decimal digits, with a leading minus sign for a negative number.\<close>

definition Itoa :: "int \<Rightarrow> string" where
  "Itoa i = (if i < 0 then CHR ''-'' # itoa_nat (nat (- i)) else itoa_nat (nat i))"

text \<open>
  HMAC-SHA256 is a library primitive: the parameter \<open>H key message\<close> stands for
  \<open>hmac.New(sha256.New, key)\<close>, \<open>Write(message)\<close>, \<open>Sum(nil)\<close>.
\<close>

type_synonym hmac_fn = "string \<Rightarrow> byte list \<Rightarrow> byte list"

definition dcnetHmacKey :: "int \<Rightarrow> string" where
  "dcnetHmacKey clientID = ''secret-client-'' @ Itoa clientID"

definition computeHmac256 :: "hmac_fn \<Rightarrow> int \<Rightarrow> byte list \<Rightarrow> byte list" where
  "computeHmac256 H clientID message = H (dcnetHmacKey clientID) message"

text \<open>
  The relay's check of the same HMAC (\<open>ValidateHmac256\<close> in package relay):
  \<open>bytes.Equal\<close> of the given HMAC and the one recomputed under the relay's key.
\<close>

definition relayHmacKey :: "int \<Rightarrow> string" where
  "relayHmacKey clientID = ''client-secret'' @ Itoa clientID"

definition ValidateHmac256 :: "hmac_fn \<Rightarrow> byte list \<Rightarrow> byte list \<Rightarrow> int \<Rightarrow> bool" where
  "ValidateHmac256 H message inputHmac clientID =
     (let computedHmac = H (relayHmacKey clientID) message in inputHmac = computedHmac)"

subsection \<open>Encoding\<close>

text \<open>One pad per shared generator: \<open>contentSize\<close> keystream bytes each.\<close>

fun preparePads :: "int \<Rightarrow> Cipher list \<Rightarrow> panic + (byte list list \<times> Cipher list)" where
  "preparePads n [] = Inr ([], [])"
| "preparePads n (g # gs) =
     (case make_bytes n of
        Inl p \<Rightarrow> Inl p
      | Inr zeros \<Rightarrow>
          (let (pad, g') = XORKeyStream g zeros in
           case preparePads n gs of
             Inl p \<Rightarrow> Inl p
           | Inr (pads, gs') \<Rightarrow> Inr (pad # pads, g' # gs')))"

text \<open>
  \<open>for k := range c.payload { c.payload[k] ^= pad[k] }\<close>: Go panics on the first index
  beyond the pad.
\<close>

definition xorPad :: "byte list \<Rightarrow> byte list \<Rightarrow> panic + byte list" where
  "xorPad buf pad =
     (if length pad < length buf then Inl IndexOutOfRange
      else Inr (map (\<lambda>k. (buf ! k) XOR (pad ! k)) [0..<length buf]))"

fun xorPads :: "byte list \<Rightarrow> byte list list \<Rightarrow> panic + byte list" where
  "xorPads buf [] = Inr buf"
| "xorPads buf (pad # pads) =
     (case xorPad buf pad of Inl p \<Rightarrow> Inl p | Inr buf' \<Rightarrow> xorPads buf' pads)"

text \<open>
  The plaintext cell of a client. A \<open>nil\<close> payload gives the zero cell of
  \<open>contentSize\<close> bytes. Any other payload is cloned into a zeroed buffer of
  \<open>GetPayloadSize()\<close> bytes (the slice expression panics when the payload is longer);
  for the slot owner under disruption protection the HMAC is put in front. The HMAC is
  computed over \<open>c.payload\<close>, which is still \<open>nil\<close> at that point, that is over the
  empty message.
\<close>

definition clientPlaintext ::
  "hmac_fn \<Rightarrow> DCNetEntity \<Rightarrow> bool \<Rightarrow> byte list option \<Rightarrow> panic + byte list" where
  "clientPlaintext H e slotOwner pl =
     (case pl of
        None \<Rightarrow> make_bytes (DCNetContentSize e)
      | Some p \<Rightarrow>
          (case make_bytes (GetPayloadSize e) of
             Inl err \<Rightarrow> Inl err
           | Inr payload2 \<Rightarrow>
               if length payload2 < length p then Inl SliceOutOfRange
               else
                 let padded = p @ drop (length p) payload2 in
                 if slotOwner \<and> DisruptionProtectionEnabled e
                 then Inr (computeHmac256 H (EntityID e) [] @ padded)
                 else Inr padded))"

definition clientEncode ::
  "hmac_fn \<Rightarrow> DCNetEntity \<Rightarrow> bool \<Rightarrow> byte list option \<Rightarrow> panic + (DCNetCipher \<times> DCNetEntity)" where
  "clientEncode H e slotOwner pl =
     (case clientPlaintext H e slotOwner pl of
        Inl err \<Rightarrow> Inl err
      | Inr plain \<Rightarrow>
          (case preparePads (DCNetContentSize e) (sharedPRNGs e) of
             Inl err \<Rightarrow> Inl err
           | Inr (p_ij, gs) \<Rightarrow>
               let e' = e\<lparr>sharedPRNGs := gs\<rparr> in
               if EquivocationProtectionEnabled e
               then (case equivocationProtection e of
                       None \<Rightarrow> Inl NilPointer
                     | Some eq \<Rightarrow>
                         (let (enc, sigma_j) = ClientEncryptPayload eq slotOwner plain p_ij in
                          case xorPads enc p_ij of
                            Inl err \<Rightarrow> Inl err
                          | Inr ct \<Rightarrow>
                              Inr (\<lparr>payload = ct, equivocationProtectionTag = Some sigma_j\<rparr>, e')))
               else (case xorPads plain p_ij of
                       Inl err \<Rightarrow> Inl err
                     | Inr ct \<Rightarrow> Inr (\<lparr>payload = ct, equivocationProtectionTag = None\<rparr>, e'))))"

definition trusteeEncode :: "DCNetEntity \<Rightarrow> panic + (DCNetCipher \<times> DCNetEntity)" where
  "trusteeEncode e =
     (case make_bytes (DCNetContentSize e) of
        Inl err \<Rightarrow> Inl err
      | Inr zeros \<Rightarrow>
          (case preparePads (DCNetContentSize e) (sharedPRNGs e) of
             Inl err \<Rightarrow> Inl err
           | Inr (p_ij, gs) \<Rightarrow>
               (case xorPads zeros p_ij of
                  Inl err \<Rightarrow> Inl err
                | Inr ct \<Rightarrow>
                    let e' = e\<lparr>sharedPRNGs := gs\<rparr> in
                    if EquivocationProtectionEnabled e
                    then (case equivocationProtection e of
                            None \<Rightarrow> Inl NilPointer
                          | Some eq \<Rightarrow>
                              Inr (\<lparr>payload = ct,
                                    equivocationProtectionTag = Some (TrusteeGetContribution eq p_ij)\<rparr>, e'))
                    else Inr (\<lparr>payload = ct, equivocationProtectionTag = None\<rparr>, e'))))"

text \<open>
  The loop of \<open>EncodeForRound\<close> that discards the keystream of skipped rounds: each
  pass draws \<open>DCNetContentSize\<close> bytes from every shared generator, drops them, and
  increments the round counter.
\<close>

function skipRounds :: "DCNetEntity \<Rightarrow> int \<Rightarrow> panic + DCNetEntity" where
  "skipRounds e roundID =
     (if currentRound e < roundID
      then (case preparePads (DCNetContentSize e) (sharedPRNGs e) of
              Inl err \<Rightarrow> Inl err
            | Inr (dummy, gs) \<Rightarrow>
                skipRounds (e\<lparr>sharedPRNGs := gs, currentRound := currentRound e + 1\<rparr>) roundID)
      else Inr e)"
  by pat_completeness auto
termination
  by (relation "measure (\<lambda>(e, r). nat (r - currentRound e))") auto

declare skipRounds.simps [simp del]

text \<open>
  \<open>EncodeForRound\<close>. The wire form of a cipher (\<open>ToBytes\<close>, \<open>DCNetCipherFromBytes\<close>)
  is outside the sources; the model passes the cipher itself.
\<close>

definition EncodeForRound ::
  "hmac_fn \<Rightarrow> DCNetEntity \<Rightarrow> int \<Rightarrow> bool \<Rightarrow> byte list option \<Rightarrow> panic + (DCNetCipher \<times> DCNetEntity)" where
  "EncodeForRound H e roundID slotOwner pl =
     (if int (length (case pl of None \<Rightarrow> [] | Some p \<Rightarrow> p)) > DCNetContentSize e
      then Inl PayloadTooLong
      else if roundID < currentRound e then Inl RoundInThePast
      else (case skipRounds e roundID of
              Inl err \<Rightarrow> Inl err
            | Inr e' \<Rightarrow>
                if Entity e' = DCNET_CLIENT then clientEncode H e' slotOwner pl
                else trusteeEncode e'))"

subsection \<open>Decoding at the relay\<close>

definition DecodeStart :: "DCNetEntity \<Rightarrow> int \<Rightarrow> panic + DCNetEntity" where
  "DecodeStart e roundID =
     (case make_bytes (DCNetContentSize e) of
        Inl err \<Rightarrow> Inl err
      | Inr zeros \<Rightarrow>
          Inr (e\<lparr>DCNetRoundDecoder :=
                  Some \<lparr>currentRoundBeingDecoded = roundID, xorBuffer = zeros,
                        equivTrusteeContribs = [], equivClientContribs = []\<rparr>\<rparr>))"

text \<open>\<open>for i := range payload { xorBuffer[i] ^= payload[i] }\<close>\<close>

definition xorInto :: "byte list \<Rightarrow> byte list \<Rightarrow> panic + byte list" where
  "xorInto buf pl =
     (if length buf < length pl then Inl IndexOutOfRange
      else Inr (map (\<lambda>i. (buf ! i) XOR (pl ! i)) [0..<length pl] @ drop (length pl) buf))"

definition DecodeClient :: "DCNetEntity \<Rightarrow> int \<Rightarrow> DCNetCipher \<Rightarrow> panic + DCNetEntity" where
  "DecodeClient e roundID c =
     (case DCNetRoundDecoder e of
        None \<Rightarrow> Inl NilPointer
      | Some d \<Rightarrow>
          if roundID \<noteq> currentRoundBeingDecoded d then Inl WrongDecodeRound
          else (case xorInto (xorBuffer d) (payload c) of
                  Inl err \<Rightarrow> Inl err
                | Inr buf \<Rightarrow>
                    Inr (e\<lparr>DCNetRoundDecoder :=
                            Some (d\<lparr>xorBuffer := buf,
                                    equivClientContribs :=
                                      (if EquivocationProtectionEnabled e
                                       then equivClientContribs d @ [equivocationProtectionTag c]
                                       else equivClientContribs d)\<rparr>)\<rparr>)))"

definition DecodeTrustee :: "DCNetEntity \<Rightarrow> int \<Rightarrow> DCNetCipher \<Rightarrow> panic + DCNetEntity" where
  "DecodeTrustee e roundID c =
     (case DCNetRoundDecoder e of
        None \<Rightarrow> Inl NilPointer
      | Some d \<Rightarrow>
          if roundID \<noteq> currentRoundBeingDecoded d then Inl WrongDecodeRound
          else (case xorInto (xorBuffer d) (payload c) of
                  Inl err \<Rightarrow> Inl err
                | Inr buf \<Rightarrow>
                    Inr (e\<lparr>DCNetRoundDecoder :=
                            Some (d\<lparr>xorBuffer := buf,
                                    equivTrusteeContribs :=
                                      (if EquivocationProtectionEnabled e
                                       then equivTrusteeContribs d @ [equivocationProtectionTag c]
                                       else equivTrusteeContribs d)\<rparr>)\<rparr>)))"

text \<open>
  \<open>DecodeCell\<close>: \<open>decoded\<close> is the XOR buffer, or the output of \<open>RelayDecode\<close> under
  equivocation protection. With disruption protection the first 32 bytes of \<open>decoded\<close>
  are cut off and the rest is returned; otherwise the function returns \<open>d.xorBuffer\<close>.
\<close>

definition DecodeCell :: "DCNetEntity \<Rightarrow> panic + byte list" where
  "DecodeCell e =
     (case DCNetRoundDecoder e of
        None \<Rightarrow> Inl NilPointer
      | Some d \<Rightarrow>
          (case (if EquivocationProtectionEnabled e
                 then (case equivocationProtection e of
                         None \<Rightarrow> Inl NilPointer
                       | Some eq \<Rightarrow>
                           Inr (RelayDecode eq (xorBuffer d) (equivTrusteeContribs d)
                                  (equivClientContribs d)))
                 else Inr (xorBuffer d)) of
             Inl err \<Rightarrow> Inl err
           | Inr decoded \<Rightarrow>
               if DisruptionProtectionEnabled e
               then (if int (length decoded) < DISRUPTION_PROTECTION_CONTRIB_LENGTH
                     then Inl SliceOutOfRange
                     else Inr (drop (nat DISRUPTION_PROTECTION_CONTRIB_LENGTH) decoded))
               else Inr (xorBuffer d)))"

subsection \<open>One round of the DC-net\<close>

text \<open>
  The relay's decoding of a collected round, as in \<open>upstreamPhase2b_extractPayload\<close>:
  every client cipher goes through \<open>DecodeClient\<close>, every trustee cipher through
  \<open>DecodeTrustee\<close>, then \<open>DecodeCell\<close> gives the cell.
\<close>

fun decodeClients :: "DCNetEntity \<Rightarrow> int \<Rightarrow> DCNetCipher list \<Rightarrow> panic + DCNetEntity" where
  "decodeClients e roundID [] = Inr e"
| "decodeClients e roundID (s # ss) =
     (case DecodeClient e roundID s of Inl err \<Rightarrow> Inl err | Inr e' \<Rightarrow> decodeClients e' roundID ss)"

fun decodeTrustees :: "DCNetEntity \<Rightarrow> int \<Rightarrow> DCNetCipher list \<Rightarrow> panic + DCNetEntity" where
  "decodeTrustees e roundID [] = Inr e"
| "decodeTrustees e roundID (s # ss) =
     (case DecodeTrustee e roundID s of Inl err \<Rightarrow> Inl err | Inr e' \<Rightarrow> decodeTrustees e' roundID ss)"

definition relayDecodeRound ::
  "DCNetEntity \<Rightarrow> int \<Rightarrow> DCNetCipher list \<Rightarrow> DCNetCipher list \<Rightarrow> panic + byte list" where
  "relayDecodeRound relay roundID clientSlices trusteesSlices =
     (case DecodeStart relay roundID of
        Inl err \<Rightarrow> Inl err
      | Inr e0 \<Rightarrow>
          (case decodeClients e0 roundID clientSlices of
             Inl err \<Rightarrow> Inl err
           | Inr e1 \<Rightarrow>
               (case decodeTrustees e1 roundID trusteesSlices of
                  Inl err \<Rightarrow> Inl err
                | Inr e2 \<Rightarrow> DecodeCell e2)))"

text \<open>
  Every participant encodes one cell for the round. \<open>slot = Some (i, P)\<close>: the client
  at position \<open>i\<close> is the slot owner and encodes the payload \<open>P\<close>; \<open>slot = None\<close>:
  nobody owns the slot. Every other client encodes \<open>nil\<close>, and so does every trustee.
\<close>

fun collect :: "(panic + 'a) list \<Rightarrow> panic + 'a list" where
  "collect [] = Inr []"
| "collect (x # xs) =
     (case x of
        Inl err \<Rightarrow> Inl err
      | Inr v \<Rightarrow> (case collect xs of Inl err \<Rightarrow> Inl err | Inr vs \<Rightarrow> Inr (v # vs)))"

definition isOwner :: "(nat \<times> byte list) option \<Rightarrow> nat \<Rightarrow> bool" where
  "isOwner slot i = (case slot of None \<Rightarrow> False | Some (j, P) \<Rightarrow> i = j)"

definition payloadOf :: "(nat \<times> byte list) option \<Rightarrow> nat \<Rightarrow> byte list option" where
  "payloadOf slot i = (case slot of None \<Rightarrow> None | Some (j, P) \<Rightarrow> if i = j then Some P else None)"

definition cipherOf :: "panic + (DCNetCipher \<times> DCNetEntity) \<Rightarrow> panic + DCNetCipher" where
  "cipherOf r = (case r of Inl err \<Rightarrow> Inl err | Inr (c, e') \<Rightarrow> Inr c)"

definition clientCiphers ::
  "hmac_fn \<Rightarrow> DCNetEntity list \<Rightarrow> int \<Rightarrow> (nat \<times> byte list) option \<Rightarrow> panic + DCNetCipher list" where
  "clientCiphers H clients roundID slot =
     collect (map (\<lambda>i. cipherOf (EncodeForRound H (clients ! i) roundID (isOwner slot i) (payloadOf slot i)))
                [0..<length clients])"

definition trusteeCiphers ::
  "hmac_fn \<Rightarrow> DCNetEntity list \<Rightarrow> int \<Rightarrow> panic + DCNetCipher list" where
  "trusteeCiphers H trustees roundID =
     collect (map (\<lambda>j. cipherOf (EncodeForRound H (trustees ! j) roundID False None))
                [0..<length trustees])"

definition dcnetRound ::
  "hmac_fn \<Rightarrow> DCNetEntity \<Rightarrow> DCNetEntity list \<Rightarrow> DCNetEntity list \<Rightarrow> int
     \<Rightarrow> (nat \<times> byte list) option \<Rightarrow> panic + byte list" where
  "dcnetRound H relay clients trustees roundID slot =
     (case clientCiphers H clients roundID slot of
        Inl err \<Rightarrow> Inl err
      | Inr cs \<Rightarrow>
          (case trusteeCiphers H trustees roundID of
             Inl err \<Rightarrow> Inl err
           | Inr ts \<Rightarrow> relayDecodeRound relay roundID cs ts))"

text \<open>
  A configuration with pairwise shared secrets, all participants at the same round:
  the \<open>j\<close>-th generator of client \<open>i\<close> is the \<open>i\<close>-th generator of trustee \<open>j\<close>, in
  the same state; all entities agree on the content size and on the protection flags.
\<close>

definition sameSetup :: "DCNetEntity \<Rightarrow> DCNET_ENTITY \<Rightarrow> int \<Rightarrow> bool \<Rightarrow> bool \<Rightarrow> bool" where
  "sameSetup e role contentSize equivocation disruption =
     (Entity e = role \<and> DCNetContentSize e = contentSize
      \<and> EquivocationProtectionEnabled e = equivocation
      \<and> DisruptionProtectionEnabled e = disruption)"

definition pairwiseShared :: "DCNetEntity list \<Rightarrow> DCNetEntity list \<Rightarrow> int \<Rightarrow> bool" where
  "pairwiseShared clients trustees round0 =
     ((\<forall>i < length clients.
          length (sharedPRNGs (clients ! i)) = length trustees
          \<and> currentRound (clients ! i) = round0)
      \<and> (\<forall>j < length trustees.
          length (sharedPRNGs (trustees ! j)) = length clients
          \<and> currentRound (trustees ! j) = round0)
      \<and> (\<forall>i < length clients. \<forall>j < length trustees.
          sharedPRNGs (clients ! i) ! j = sharedPRNGs (trustees ! j) ! i))"

text \<open>The owner's payload, zero-padded to the usable payload size of the cell.\<close>

definition padTo :: "int \<Rightarrow> byte list \<Rightarrow> byte list" where
  "padTo n p = p @ replicate (nat n - length p) 0"

definition expectedCell :: "int \<Rightarrow> (nat \<times> byte list) option \<Rightarrow> byte list" where
  "expectedCell n slot = (case slot of None \<Rightarrow> replicate (nat n) 0 | Some (i, P) \<Rightarrow> padTo n P)"

definition validSlot :: "nat \<Rightarrow> int \<Rightarrow> (nat \<times> byte list) option \<Rightarrow> bool" where
  "validSlot nClients n slot =
     (case slot of None \<Rightarrow> True | Some (i, P) \<Rightarrow> i < nClients \<and> int (length P) \<le> n)"

text \<open>
  A small concrete configuration (two clients, two trustees), built with the
  constructor from four pairwise shared keys; used to instantiate the theorems.
\<close>

definition demoSuite :: Suite where
  "demoSuite =
     \<lparr>KeySize = 2,
      NewCipher = (\<lambda>key k. foldr (+) key 0 + of_nat k),
      ScalarLen = 32,
      NewEquivocation =
        \<lparr>ClientEncryptPayload = (\<lambda>slotOwner p pads. (map NOT p, [])),
         TrusteeGetContribution = (\<lambda>pads. []),
         RelayDecode = (\<lambda>x ts cs. map NOT x)\<rparr>\<rparr>"

definition demoKey :: "nat \<Rightarrow> nat \<Rightarrow> Cipher" where
  "demoKey i j = \<lparr>keystream = (\<lambda>k. of_nat (16 * i + 4 * j + k)), consumed = 0\<rparr>"

definition demoClient :: "nat \<Rightarrow> DCNetEntity" where
  "demoClient i =
     projr (NewDCNetEntity demoSuite (int i) DCNET_CLIENT 3 False False [demoKey i 0, demoKey i 1])"

definition demoTrustee :: "nat \<Rightarrow> DCNetEntity" where
  "demoTrustee j =
     projr (NewDCNetEntity demoSuite (int j) DCNET_TRUSTEE 3 False False [demoKey 0 j, demoKey 1 j])"

definition demoRelay :: DCNetEntity where
  "demoRelay = projr (NewDCNetEntity demoSuite 0 DCNET_RELAY 3 False False [])"

text \<open>
  A trustee with both protections enabled (message size 72, scalars of 32 bytes), and a
  relay with equivocation protection only, in the middle of decoding a round.
\<close>

definition demoProtectedTrustee :: DCNetEntity where
  "demoProtectedTrustee =
     projr (NewDCNetEntity demoSuite 0 DCNET_TRUSTEE 72 True True [demoKey 0 0])"

definition demoEquivocationRelay :: DCNetEntity where
  "demoEquivocationRelay =
     projr (DecodeClient
       (projr (DecodeStart (projr (NewDCNetEntity demoSuite 0 DCNET_RELAY 35 True False [])) 1))
       1 \<lparr>payload = [1, 2, 3], equivocationProtectionTag = Some [9]\<rparr>)"

definition demoHmac :: hmac_fn where
  "demoHmac key message = replicate 32 0"

definition payloadBytes :: "byte list option \<Rightarrow> byte list" where
  "payloadBytes pl = (case pl of None \<Rightarrow> [] | Some p \<Rightarrow> p)"

text \<open>Auxiliary notions for the proofs: pads, generator positions, XOR of byte vectors.\<close>

definition padOf :: "int \<Rightarrow> Cipher \<Rightarrow> byte list" where
  "padOf n g = map (\<lambda>k. keystream g (consumed g + k)) [0..<nat n]"

definition advance :: "nat \<Rightarrow> Cipher \<Rightarrow> Cipher" where
  "advance m g = g\<lparr>consumed := consumed g + m\<rparr>"

definition xsum :: "byte list \<Rightarrow> byte" where
  "xsum bs = foldr (XOR) bs 0"

definition vxor :: "byte list \<Rightarrow> byte list \<Rightarrow> byte list" where
  "vxor a b = map (\<lambda>k. (a ! k) XOR (b ! k)) [0..<length a]"

section \<open>The trustee's view of the Neff shuffle (package scheduler)\<close>

text \<open>
  Scalars and points of the crypto suite are type parameters. The suite's operations
  that the trustee calls are collected in a record: \<open>Scalar().Mul\<close>, \<open>Point().Mul\<close>,
  \<open>Scalar().One\<close>, \<open>MarshalBinary\<close> (which may fail), the pair-shuffle verifier
  (\<open>shuffle.Verifier\<close> checked by \<open>proof.HashVerify\<close>; \<open>True\<close> when it returns no
  error) and \<open>crypto.SchnorrSign\<close>. Random choices (\<open>Scalar().Pick(random.Stream)\<close>,
  \<open>rand.Perm\<close>) are arguments of the functions that make them.
  A function returning \<open>(error, interface{})\<close> returns a sum whose left side is the
  error, or the panic of an index out of range.
\<close>

record ('s, 'p) Group =
  ScalarMul :: "'s \<Rightarrow> 's \<Rightarrow> 's"
  PointMul :: "'p \<Rightarrow> 's \<Rightarrow> 'p"
  One :: 's
  MarshalScalar :: "'s \<Rightarrow> byte list option"
  MarshalPoint :: "'p \<Rightarrow> byte list option"
  HashVerify :: "'p list \<Rightarrow> 'p list \<Rightarrow> byte list \<Rightarrow> bool"
  SchnorrSign :: "byte list \<Rightarrow> 's \<Rightarrow> byte list"

datatype failure = Error string | Crash panic

record ('s, 'p) neffShuffleTrusteeView =
  TrusteeId :: int
  PrivateKey :: 's
  PublicKey :: 'p
  SecretCoeff :: "'s option"
  Shares :: "'s option"
  Proof :: "byte list option"
  EphemeralKeys :: "'p list option"

record ('s, 'p) TRU_REL_TELL_NEW_BASE_AND_EPH_PKS =
  NewBase :: 's
  NewEphPks :: "'p list"
  NewProof :: "byte list"

record TRU_REL_SHUFFLE_SIG =
  TrusteeID :: int
  Sig :: "byte list"

text \<open>
  \<open>for i, v := range perm { ephPublicKeys3[v] = ephPublicKeys2[i] }\<close> on a fresh array
  of \<open>nil\<close> points. \<open>rand.Perm(n)\<close> returns a permutation of \<open>0..n-1\<close>, so every
  cell is assigned.
\<close>

definition permuteKeys :: "nat list \<Rightarrow> 'p list \<Rightarrow> 'p option list" where
  "permuteKeys perm ks =
     fold (\<lambda>(i, v) acc. acc[v := Some (ks ! i)]) (zip [0..<length perm] perm)
       (replicate (length ks) None)"

text \<open>
  \<open>ReceivedShuffleFromRelay\<close>, with the picked scalar \<open>secretCoeff\<close> and the permutation
  \<open>perm\<close> drawn by \<open>rand.Perm(len(keys))\<close> as arguments. The source transforms the keys
  in the caller's array (\<open>ephPublicKeys2 := clientPublicKeys\<close> is an alias); the model
  returns the message and the trustee's new state.
\<close>

definition ReceivedShuffleFromRelay ::
  "('s, 'p) Group \<Rightarrow> ('s, 'p) neffShuffleTrusteeView \<Rightarrow> 's option \<Rightarrow> 'p list option \<Rightarrow> bool
     \<Rightarrow> 's \<Rightarrow> nat list
     \<Rightarrow> failure + (('s, 'p) TRU_REL_TELL_NEW_BASE_AND_EPH_PKS \<times> ('s, 'p) neffShuffleTrusteeView)" where
  "ReceivedShuffleFromRelay G t lastShares clientPublicKeys shuffleKeyPositions secretCoeff perm =
     (case lastShares of
        None \<Rightarrow> Inl (Error ''Cannot perform a shuffle is lastShare is nil'')
      | Some s \<Rightarrow>
     (case clientPublicKeys of
        None \<Rightarrow> Inl (Error ''Cannot perform a shuffle is clientPublicKeys is nil'')
      | Some ks \<Rightarrow>
          if length ks = 0
          then Inl (Error ''Cannot perform a shuffle is len(clientPublicKeys) is 0'')
          else
            let newShares = ScalarMul G s secretCoeff;
                ephPublicKeys2 = map (\<lambda>oldKey. PointMul G oldKey secretCoeff) ks;
                ephPublicKeys3 =
                  (if shuffleKeyPositions then map the (permuteKeys perm ephPublicKeys2)
                   else ephPublicKeys2);
                proof = replicate 50 0
            in Inr (\<lparr>NewBase = newShares, NewEphPks = ephPublicKeys3, NewProof = proof\<rparr>,
                    t\<lparr>SecretCoeff := Some secretCoeff, Shares := Some newShares,
                      Proof := Some proof, EphemeralKeys := Some ephPublicKeys3\<rparr>)))"

text \<open>
  The verification loop of \<open>ReceivedTranscriptFromRelay\<close>. \<open>err\<close> is declared before
  the loop and keeps its value from one pass to the next (\<open>failed\<close> is \<open>err != nil\<close>);
  the verifier runs for \<open>j > 0\<close> when the previous list has more than one key. After
  that the source sets \<open>verify = true\<close> (\<open>TODO: This shuffle needs to be fixed\<close>), so
  the error return below it is never taken.
\<close>

fun verifyShuffles ::
  "('s, 'p) Group \<Rightarrow> 'p list list \<Rightarrow> byte list list \<Rightarrow> nat list \<Rightarrow> bool \<Rightarrow> failure option" where
  "verifyShuffles G shuffledPublicKeys proofs [] failed = None"
| "verifyShuffles G shuffledPublicKeys proofs (j # js) failed =
     (let failed' =
            (if j > 0 \<and> length (shuffledPublicKeys ! (j - 1)) > 1
             then \<not> HashVerify G (shuffledPublicKeys ! (j - 1)) (shuffledPublicKeys ! j) (proofs ! j)
             else failed);
          verify = (if j > 0 \<and> failed' then False else True);
          verify = True
      in if \<not> verify then Some (Error ''Could not verify the neff shuffle'')
         else verifyShuffles G shuffledPublicKeys proofs js failed')"

text \<open>The inner loop over the keys, with its \<open>break\<close> at the first difference.\<close>

fun allKeyEqual :: "'p list \<Rightarrow> 'p list \<Rightarrow> nat list \<Rightarrow> panic + bool" where
  "allKeyEqual own row [] = Inr True"
| "allKeyEqual own row (k # ks) =
     (if length own \<le> k \<or> length row \<le> k then Inl IndexOutOfRange
      else if own ! k \<noteq> row ! k then Inr False
      else allKeyEqual own row ks)"

fun ownPermutationFound ::
  "'s \<Rightarrow> byte list \<Rightarrow> 'p list \<Rightarrow> nat \<Rightarrow> 's list \<Rightarrow> 'p list list \<Rightarrow> byte list list \<Rightarrow> nat list \<Rightarrow> bool
     \<Rightarrow> panic + bool" where
  "ownPermutationFound tShares tProof tKeys nClients shares shuffledPublicKeys proofs [] found = Inr found"
| "ownPermutationFound tShares tProof tKeys nClients shares shuffledPublicKeys proofs (j # js) found =
     (if shares ! j = tShares \<and> tProof = proofs ! j
      then (case allKeyEqual tKeys (shuffledPublicKeys ! j) [0..<nClients] of
              Inl p \<Rightarrow> Inl p
            | Inr eq \<Rightarrow>
                ownPermutationFound tShares tProof tKeys nClients shares shuffledPublicKeys proofs js
                  (found \<or> eq))
      else ownPermutationFound tShares tProof tKeys nClients shares shuffledPublicKeys proofs js found)"

text \<open>The blob that is signed: the last shares, then the keys of the last permutation.\<close>

fun marshalKeys :: "('s, 'p) Group \<Rightarrow> 'p list \<Rightarrow> nat list \<Rightarrow> failure + byte list" where
  "marshalKeys G row [] = Inr []"
| "marshalKeys G row (j # js) =
     (if length row \<le> j then Inl (Crash IndexOutOfRange)
      else (case MarshalPoint G (row ! j) of
              None \<Rightarrow> Inl (Error ''Can't marshall shuffled public key'')
            | Some pkBytes \<Rightarrow>
                (case marshalKeys G row js of
                   Inl e \<Rightarrow> Inl e
                 | Inr rest \<Rightarrow> Inr (pkBytes @ rest))))"

definition transcriptBlob ::
  "('s, 'p) Group \<Rightarrow> 's list \<Rightarrow> 'p list list \<Rightarrow> nat \<Rightarrow> failure + byte list" where
  "transcriptBlob G shares shuffledPublicKeys nClients =
     (let lastPerm = length shares - 1 in
      case MarshalScalar G (shares ! lastPerm) of
        None \<Rightarrow> Inl (Error ''Can't marshall the last shares...'')
      | Some lastSharesByte \<Rightarrow>
          (case marshalKeys G (shuffledPublicKeys ! lastPerm) [0..<nClients] of
             Inl e \<Rightarrow> Inl e
           | Inr pks \<Rightarrow> Inr (lastSharesByte @ pks)))"

definition ReceivedTranscriptFromRelay ::
  "('s, 'p) Group \<Rightarrow> ('s, 'p) neffShuffleTrusteeView \<Rightarrow> 's list \<Rightarrow> 'p list list \<Rightarrow> byte list list
     \<Rightarrow> failure + TRU_REL_SHUFFLE_SIG" where
  "ReceivedTranscriptFromRelay G t shares shuffledPublicKeys proofs =
     (case Shares t of
        None \<Rightarrow> Inl (Error ''Cannot verify the shuffle, we didn't store the base'')
      | Some tShares \<Rightarrow>
     (case EphemeralKeys t of
        None \<Rightarrow> Inl (Error ''Cannot verify the shuffle, we didn't store the ephemeral keys'')
      | Some tKeys \<Rightarrow>
     if length tKeys = 0
     then Inl (Error ''Cannot verify the shuffle, we didn't store the ephemeral keys'')
     else
     (case Proof t of
        None \<Rightarrow> Inl (Error ''Cannot verify the shuffle, we didn't store the proof'')
      | Some tProof \<Rightarrow>
     if length shares \<noteq> length shuffledPublicKeys \<or> length shares \<noteq> length proofs
     then Inl (Error ''Size not matching'')
     else if shuffledPublicKeys = [] then Inl (Crash IndexOutOfRange)
     else
       let nTrustees = length shares;
           nClients = length (shuffledPublicKeys ! 0)
       in (case verifyShuffles G shuffledPublicKeys proofs [0..<nTrustees] False of
             Some e \<Rightarrow> Inl e
           | None \<Rightarrow>
               (case ownPermutationFound tShares tProof tKeys nClients shares shuffledPublicKeys
                       proofs [0..<nTrustees] False of
                  Inl p \<Rightarrow> Inl (Crash p)
                | Inr found \<Rightarrow>
                    if \<not> found
                    then Inl (Error ''Could not locate our own permutation in the transcript...'')
                    else (case transcriptBlob G shares shuffledPublicKeys nClients of
                            Inl e \<Rightarrow> Inl e
                          | Inr blob \<Rightarrow>
                              Inr \<lparr>TrusteeID = TrusteeId t,
                                   Sig = SchnorrSign G blob (PrivateKey t)\<rparr>))))))"




text \<open>
  A toy group for the instances: integers as scalars and as points, multiplication as
  the action; a verifier that rejects every proof.
\<close>

definition demoGroup :: "(int, int) Group" where
  "demoGroup =
     \<lparr>ScalarMul = (\<lambda>a b. a * b), PointMul = (\<lambda>p s. p * s), One = 1,
      MarshalScalar = (\<lambda>s. Some [word_of_int s]),
      MarshalPoint = (\<lambda>p. Some [word_of_int p]),
      HashVerify = (\<lambda>X Xbar proof. False),
      SchnorrSign = (\<lambda>blob sk. blob @ [word_of_int sk])\<rparr>"

definition demoView :: "int \<Rightarrow> (int, int) neffShuffleTrusteeView" where
  "demoView j =
     \<lparr>TrusteeId = j, PrivateKey = 11, PublicKey = 11,
      SecretCoeff = None, Shares = None, Proof = None, EphemeralKeys = None\<rparr>"


text \<open>Trustee 0 after its own shuffle of the keys \<open>[2, 3, 5]\<close> with base \<open>1\<close>.\<close>

definition demoShuffledView :: "(int, int) neffShuffleTrusteeView" where
  "demoShuffledView =
     snd (projr (ReceivedShuffleFromRelay demoGroup (demoView 0) (Some 1) (Some [2, 3, 5]) True 7
                   [1, 2, 0]))"

section \<open>The relay (package relay)\<close>

text \<open>
  The relay's round numbers are \<open>int32\<close>; \<open>int32 x\<close> is the conversion of a Go
  \<open>int\<close> to \<open>int32\<close>, and a difference of two \<open>int32\<close> values wraps around.
\<close>

definition int32 :: "int \<Rightarrow> int" where
  "int32 x = sint (word_of_int x :: 32 word)"

definition sub32 :: "int \<Rightarrow> int \<Rightarrow> int" where
  "sub32 a b = int32 (a - b)"

subsection \<open>Parameter messages (package net)\<close>

datatype Interface = IntData int | BoolData bool | StringData string

record ALL_ALL_PARAMETERS =
  ForceParams :: bool
  Params :: "string \<rightharpoonup> Interface"
  TrusteesPks :: "byte list option list"

definition emptyParameters :: ALL_ALL_PARAMETERS where
  "emptyParameters = \<lparr>ForceParams = False, Params = Map.empty, TrusteesPks = []\<rparr>"

definition Add :: "ALL_ALL_PARAMETERS \<Rightarrow> string \<Rightarrow> Interface \<Rightarrow> ALL_ALL_PARAMETERS" where
  "Add m key val = m\<lparr>Params := (Params m)(key \<mapsto> val)\<rparr>"

text \<open>
  The accessors return the value stored under the key, or the default when the key is
  absent. The type assertion \<open>val.Data.(int)\<close> panics on a value of another type.
\<close>

definition BoolValueOrElse :: "ALL_ALL_PARAMETERS \<Rightarrow> string \<Rightarrow> bool \<Rightarrow> panic + bool" where
  "BoolValueOrElse m key elseVal =
     (case Params m key of
        None \<Rightarrow> Inr elseVal
      | Some (BoolData b) \<Rightarrow> Inr b
      | Some _ \<Rightarrow> Inl InterfaceConversion)"

definition IntValueOrElse :: "ALL_ALL_PARAMETERS \<Rightarrow> string \<Rightarrow> int \<Rightarrow> panic + int" where
  "IntValueOrElse m key elseVal =
     (case Params m key of
        None \<Rightarrow> Inr elseVal
      | Some (IntData i) \<Rightarrow> Inr i
      | Some _ \<Rightarrow> Inl InterfaceConversion)"

definition StringValueOrElse :: "ALL_ALL_PARAMETERS \<Rightarrow> string \<Rightarrow> string \<Rightarrow> panic + string" where
  "StringValueOrElse m key elseVal =
     (case Params m key of
        None \<Rightarrow> Inr elseVal
      | Some (StringData s) \<Rightarrow> Inr s
      | Some _ \<Rightarrow> Inl InterfaceConversion)"

subsection \<open>Messages and the relay's state\<close>

record REL_CLI_DOWNSTREAM_DATA =
  RoundID :: int
  OwnershipID :: int
  HashOfPreviousUpstreamData :: "byte list"
  Data :: "byte list option"
  FlagResync :: bool
  FlagOpenClosedRequest :: bool

datatype message =
    MSG_ALL_ALL_SHUTDOWN
  | MSG_ALL_ALL_PARAMETERS ALL_ALL_PARAMETERS
  | MSG_REL_TRU_TELL_RATE_CHANGE int
  | MSG_REL_CLI_DOWNSTREAM_DATA REL_CLI_DOWNSTREAM_DATA
  | MSG_REL_CLI_DOWNSTREAM_DATA_UDP REL_CLI_DOWNSTREAM_DATA
  | MSG_REL_ALL_DISRUPTION_REVEAL int int
  | MSG_REL_CLI_TELL_EPH_PKS_AND_TRUSTEES_SIG "byte list"

datatype destination = ToTrustee int | ToClient int | ToAllClients

record NodeRepresentation =
  ID :: int
  Connected :: bool
  PublicKey :: "byte list option"
  EphemeralPublicKey :: "byte list option"

text \<open>
  Library objects held by the state are represented by the arguments of their
  constructors; what the relay later records in them (statistics, timings, packet
  logs) is not modelled.
\<close>

datatype BitRateStatistics = NewBitRateStatistics int
datatype XOF = XOF string
datatype PCAPLog = NewPCAPLog

text \<open>
  The relay's state. The round manager is not part of the sources: its state is the
  type parameter \<open>'rm\<close> and its operations are the record \<open>RoundManagerOps\<close>. The two
  protection flags carry a prime, the DC-net entity has fields of the same names. The
  channels \<open>PriorityDataForClients\<close> and \<open>DataForClients\<close> are queues of slices that are
  not \<open>nil\<close>; a byte slice that may be \<open>nil\<close> is an option. The relay's
  DC-net entity, its Neff-shuffle view and its statistics are left out: \<open>relay.go\<close>
  calls them through an interface that is not in the sources, and those calls read and
  write none of the fields below.
\<close>

record 'rm RelayState =
  clients :: "NodeRepresentation list"
  trustees :: "NodeRepresentation list"
  nClients :: int
  nTrustees :: int
  nTrusteesPkCollected :: int
  nClientsPkCollected :: int
  ExperimentRoundLimit :: int
  PayloadSize :: int
  DownstreamCellSize :: int
  bitrateStatistics :: BitRateStatistics
  UseDummyDataDown :: bool
  UseOpenClosedSlots :: bool
  UseUDP :: bool
  WindowSize :: int
  numberOfNonAckedDownstreamPackets :: int
  OpenClosedSlotsMinDelayBetweenRequests :: int
  MaxNumberOfConsecutiveFailedRounds :: int
  ProcessingLoopSleepTime :: int
  RoundTimeOut :: int
  TrusteeCacheLowBound :: int
  TrusteeCacheHighBound :: int
  EquivocationProtectionEnabled' :: bool
  ForceDisruptionSinceRound3 :: bool
  MessageHistory :: XOF
  VerifiableDCNetKeys :: "byte list option list"
  nVkeysCollected :: int
  roundManager :: 'rm
  dcNetType :: string
  pcapLogger :: PCAPLog
  DisruptionProtectionEnabled' :: bool
  clientBitMap :: "int \<rightharpoonup> (int \<rightharpoonup> int)"
  trusteeBitMap :: "int \<rightharpoonup> (int \<rightharpoonup> int)"
  OpenClosedSlotsRequestsRoundID :: "int \<rightharpoonup> bool"
  LastMessageOfClients :: "int \<rightharpoonup> byte list"
  BEchoFlags :: "int \<rightharpoonup> byte"
  CiphertextsHistoryTrustees :: "int \<rightharpoonup> (int \<rightharpoonup> byte list)"
  CiphertextsHistoryClients :: "int \<rightharpoonup> (int \<rightharpoonup> byte list)"
  HashOfLastUpstreamMessage :: "byte list"
  DisruptionReveal :: bool
  blamingData :: "int \<times> int"
  PriorityDataForClients :: "byte list list"
  DataForClients :: "byte list list"
  DataFromDCNet :: "byte list list"
  DataOutputEnabled :: bool
  numberOfConsecutiveFailedRounds :: int

record 'rm RoundManagerOps =
  NewBufferableRoundManager :: "int \<Rightarrow> int \<Rightarrow> int \<Rightarrow> 'rm"
  DoSendStopResumeMessages :: "'rm \<Rightarrow> bool"
  AddRateLimiter :: "'rm \<Rightarrow> int \<Rightarrow> int \<Rightarrow> 'rm"
  lastRoundClosed :: "'rm \<Rightarrow> int"
  CurrentRound :: "'rm \<Rightarrow> int"
  NextRoundToOpen :: "'rm \<Rightarrow> int"
  IsNextDownstreamRoundForOpenClosedRequest :: "'rm \<Rightarrow> int \<Rightarrow> bool"
  UpdateAndGetNextOwnerID :: "'rm \<Rightarrow> int \<times> 'rm"
  OpenNextRound :: "'rm \<Rightarrow> 'rm"
  SetDataAlreadySent :: "'rm \<Rightarrow> int \<Rightarrow> REL_CLI_DOWNSTREAM_DATA \<Rightarrow> 'rm"
  SetStoredRoundSchedule :: "'rm \<Rightarrow> (int \<rightharpoonup> bool) \<Rightarrow> 'rm"
  CloseRound :: "'rm \<Rightarrow> 'rm"

text \<open>
  The relay instance: its state, the current state of its state machine, and the
  messages handed to the message sender so far (the latest last).
\<close>

record 'rm PriFiLibRelayInstance =
  relayState :: "'rm RelayState"
  stateMachine :: string
  messageSender :: "(destination \<times> message) list"

definition ChangeState :: "'rm PriFiLibRelayInstance \<Rightarrow> string \<Rightarrow> 'rm PriFiLibRelayInstance" where
  "ChangeState p newState = p\<lparr>stateMachine := newState\<rparr>"

definition SendToTrusteeWithLog ::
  "'rm PriFiLibRelayInstance \<Rightarrow> int \<Rightarrow> message \<Rightarrow> 'rm PriFiLibRelayInstance" where
  "SendToTrusteeWithLog p j msg = p\<lparr>messageSender := messageSender p @ [(ToTrustee j, msg)]\<rparr>"

definition SendToClientWithLog ::
  "'rm PriFiLibRelayInstance \<Rightarrow> int \<Rightarrow> message \<Rightarrow> 'rm PriFiLibRelayInstance" where
  "SendToClientWithLog p i msg = p\<lparr>messageSender := messageSender p @ [(ToClient i, msg)]\<rparr>"

definition BroadcastToAllClientsWithLog ::
  "'rm PriFiLibRelayInstance \<Rightarrow> message \<Rightarrow> 'rm PriFiLibRelayInstance" where
  "BroadcastToAllClientsWithLog p msg = p\<lparr>messageSender := messageSender p @ [(ToAllClients, msg)]\<rparr>"

text \<open>\<open>for j := 0; j < n; j++\<close>: the indices of the loop.\<close>

definition upto_int :: "int \<Rightarrow> int list" where
  "upto_int n = map int [0..<nat n]"

definition setState ::
  "'rm PriFiLibRelayInstance \<Rightarrow> ('rm RelayState \<Rightarrow> 'rm RelayState) \<Rightarrow> 'rm PriFiLibRelayInstance" where
  "setState p f = p\<lparr>relayState := f (relayState p)\<rparr>"

subsection \<open>Shutdown and parameters\<close>

definition Received_ALL_ALL_SHUTDOWN :: "'rm PriFiLibRelayInstance \<Rightarrow> 'rm PriFiLibRelayInstance" where
  "Received_ALL_ALL_SHUTDOWN p =
     (let p1 = ChangeState p ''SHUTDOWN'';
          p2 = fold (\<lambda>j q. SendToTrusteeWithLog q j MSG_ALL_ALL_SHUTDOWN)
                 (upto_int (nTrustees (relayState p1))) p1
      in fold (\<lambda>j q. SendToClientWithLog q j MSG_ALL_ALL_SHUTDOWN)
           (upto_int (nClients (relayState p2))) p2)"

definition BroadcastParameters :: "'rm PriFiLibRelayInstance \<Rightarrow> 'rm PriFiLibRelayInstance" where
  "BroadcastParameters p =
     (let rs = relayState p;
          msg0 = Add emptyParameters ''NClients'' (IntData (nClients rs));
          msg1 = Add msg0 ''NTrustees'' (IntData (nTrustees rs));
          msg2 = Add msg1 ''UseUDP'' (BoolData (UseUDP rs));
          msg3 = Add msg2 ''StartNow'' (BoolData True);
          msg4 = Add msg3 ''PayloadSize'' (IntData (PayloadSize rs));
          msg5 = Add msg4 ''DCNetType'' (StringData (dcNetType rs));
          msg6 = Add msg5 ''DisruptionProtectionEnabled'' (BoolData (DisruptionProtectionEnabled' rs));
          msg7 = Add msg6 ''EquivocationProtectionEnabled'' (BoolData (EquivocationProtectionEnabled' rs));
          msg = msg7\<lparr>ForceParams := True\<rparr>
      in fold (\<lambda>j q. SendToTrusteeWithLog q j
                        (MSG_ALL_ALL_PARAMETERS (Add msg ''NextFreeTrusteeID'' (IntData j))))
           (upto_int (nTrustees rs)) p)"



text \<open>
  The local variables that \<open>Received_ALL_ALL_PARAMETERS\<close> reads from the message, in
  the order of the source; each read may panic on a value of the wrong type.
\<close>

record ParameterValues =
  pv_startNow :: bool
  pv_nTrustees :: int
  pv_nClients :: int
  pv_payloadSize :: int
  pv_downCellSize :: int
  pv_windowSize :: int
  pv_useDummyDown :: bool
  pv_useOpenClosedSlots :: bool
  pv_reportingLimit :: int
  pv_useUDP :: bool
  pv_dcNetType :: string
  pv_disruptionProtection :: bool
  pv_openClosedSlotsMinDelayBetweenRequests :: int
  pv_maxNumberOfConsecutiveFailedRounds :: int
  pv_processingLoopSleepTime :: int
  pv_roundTimeOut :: int
  pv_trusteeCacheLowBound :: int
  pv_trusteeCacheHighBound :: int
  pv_equivocationProtectionEnabled :: bool
  pv_ForceDisruptionSinceRound3 :: bool

definition bindP :: "panic + 'a \<Rightarrow> ('a \<Rightarrow> panic + 'b) \<Rightarrow> panic + 'b" where
  "bindP x f = (case x of Inl err \<Rightarrow> Inl err | Inr v \<Rightarrow> f v)"

definition readParameters :: "'rm RelayState \<Rightarrow> ALL_ALL_PARAMETERS \<Rightarrow> panic + ParameterValues" where
  "readParameters rs msg =
     bindP (BoolValueOrElse msg ''StartNow'' False) (\<lambda>startNow.
     bindP (IntValueOrElse msg ''NTrustees'' (nTrustees rs)) (\<lambda>nTrustees'.
     bindP (IntValueOrElse msg ''NClients'' (nClients rs)) (\<lambda>nClients'.
     bindP (IntValueOrElse msg ''PayloadSize'' (PayloadSize rs)) (\<lambda>payloadSize.
     bindP (IntValueOrElse msg ''DownstreamCellSize'' (DownstreamCellSize rs)) (\<lambda>downCellSize.
     bindP (IntValueOrElse msg ''WindowSize'' (WindowSize rs)) (\<lambda>windowSize.
     bindP (BoolValueOrElse msg ''UseDummyDataDown'' (UseDummyDataDown rs)) (\<lambda>useDummyDown.
     bindP (BoolValueOrElse msg ''UseOpenClosedSlots'' (UseOpenClosedSlots rs)) (\<lambda>useOpenClosedSlots.
     bindP (IntValueOrElse msg ''ExperimentRoundLimit'' (ExperimentRoundLimit rs)) (\<lambda>reportingLimit.
     bindP (BoolValueOrElse msg ''UseUDP'' (UseUDP rs)) (\<lambda>useUDP.
     bindP (StringValueOrElse msg ''DCNetType'' (dcNetType rs)) (\<lambda>dcNetType'.
     bindP (BoolValueOrElse msg ''DisruptionProtectionEnabled'' False) (\<lambda>disruptionProtection.
     bindP (IntValueOrElse msg ''OpenClosedSlotsMinDelayBetweenRequests''
              (OpenClosedSlotsMinDelayBetweenRequests rs)) (\<lambda>openClosedDelay.
     bindP (IntValueOrElse msg ''RelayMaxNumberOfConsecutiveFailedRounds''
              (MaxNumberOfConsecutiveFailedRounds rs)) (\<lambda>maxFailedRounds.
     bindP (IntValueOrElse msg ''RelayProcessingLoopSleepTime'' (ProcessingLoopSleepTime rs)) (\<lambda>sleepTime.
     bindP (IntValueOrElse msg ''RelayRoundTimeOut'' (RoundTimeOut rs)) (\<lambda>roundTimeOut.
     bindP (IntValueOrElse msg ''RelayTrusteeCacheLowBound'' (TrusteeCacheLowBound rs)) (\<lambda>lowBound.
     bindP (IntValueOrElse msg ''RelayTrusteeCacheHighBound'' (TrusteeCacheHighBound rs)) (\<lambda>highBound.
     bindP (BoolValueOrElse msg ''EquivocationProtectionEnabled'' (EquivocationProtectionEnabled' rs))
       (\<lambda>equivocation.
     bindP (BoolValueOrElse msg ''ForceDisruptionSinceRound3'' False) (\<lambda>forceDisruption.
       Inr \<lparr>pv_startNow = startNow, pv_nTrustees = nTrustees', pv_nClients = nClients',
            pv_payloadSize = payloadSize, pv_downCellSize = downCellSize,
            pv_windowSize = windowSize, pv_useDummyDown = useDummyDown,
            pv_useOpenClosedSlots = useOpenClosedSlots, pv_reportingLimit = reportingLimit,
            pv_useUDP = useUDP, pv_dcNetType = dcNetType',
            pv_disruptionProtection = disruptionProtection,
            pv_openClosedSlotsMinDelayBetweenRequests = openClosedDelay,
            pv_maxNumberOfConsecutiveFailedRounds = maxFailedRounds,
            pv_processingLoopSleepTime = sleepTime, pv_roundTimeOut = roundTimeOut,
            pv_trusteeCacheLowBound = lowBound, pv_trusteeCacheHighBound = highBound,
            pv_equivocationProtectionEnabled = equivocation,
            pv_ForceDisruptionSinceRound3 = forceDisruption\<rparr>))))))))))))))))))))"

text \<open>
  A message is well typed when every key that the relay reads is absent or holds a
  value of the type that the relay asserts.
\<close>

definition boolOrAbsent :: "ALL_ALL_PARAMETERS \<Rightarrow> string \<Rightarrow> bool" where
  "boolOrAbsent m key = (case Params m key of None \<Rightarrow> True | Some (BoolData b) \<Rightarrow> True | Some _ \<Rightarrow> False)"

definition intOrAbsent :: "ALL_ALL_PARAMETERS \<Rightarrow> string \<Rightarrow> bool" where
  "intOrAbsent m key = (case Params m key of None \<Rightarrow> True | Some (IntData i) \<Rightarrow> True | Some _ \<Rightarrow> False)"

definition stringOrAbsent :: "ALL_ALL_PARAMETERS \<Rightarrow> string \<Rightarrow> bool" where
  "stringOrAbsent m key = (case Params m key of None \<Rightarrow> True | Some (StringData s) \<Rightarrow> True | Some _ \<Rightarrow> False)"

definition wellTyped :: "ALL_ALL_PARAMETERS \<Rightarrow> bool" where
  "wellTyped m =
     (list_all (boolOrAbsent m)
        [''StartNow'', ''UseDummyDataDown'', ''UseOpenClosedSlots'', ''UseUDP'',
         ''DisruptionProtectionEnabled'', ''EquivocationProtectionEnabled'',
         ''ForceDisruptionSinceRound3'']
      \<and> list_all (intOrAbsent m)
        [''NTrustees'', ''NClients'', ''PayloadSize'', ''DownstreamCellSize'', ''WindowSize'',
         ''ExperimentRoundLimit'', ''OpenClosedSlotsMinDelayBetweenRequests'',
         ''RelayMaxNumberOfConsecutiveFailedRounds'', ''RelayProcessingLoopSleepTime'',
         ''RelayRoundTimeOut'', ''RelayTrusteeCacheLowBound'', ''RelayTrusteeCacheHighBound'']
      \<and> stringOrAbsent m ''DCNetType'')"

definition emptyNode :: NodeRepresentation where
  "emptyNode = \<lparr>ID = 0, Connected = False, PublicKey = None, EphemeralPublicKey = None\<rparr>"

text \<open>The assignments to \<open>p.relayState\<close> after the size check, from \<open>nClients\<close> on.\<close>

definition assignParameters ::
  "'rm RoundManagerOps \<Rightarrow> ParameterValues \<Rightarrow> 'rm RelayState \<Rightarrow> 'rm RelayState" where
  "assignParameters ops v rs =
     rs\<lparr>trustees := replicate (nat (pv_nTrustees v)) emptyNode,
        nClients := pv_nClients v,
        nTrustees := pv_nTrustees v,
        nTrusteesPkCollected := 0,
        nClientsPkCollected := 0,
        ExperimentRoundLimit := pv_reportingLimit v,
        PayloadSize := pv_payloadSize v,
        DownstreamCellSize := pv_downCellSize v,
        bitrateStatistics := NewBitRateStatistics (pv_payloadSize v),
        UseDummyDataDown := pv_useDummyDown v,
        UseOpenClosedSlots := pv_useOpenClosedSlots v,
        UseUDP := pv_useUDP v,
        WindowSize := pv_windowSize v,
        numberOfNonAckedDownstreamPackets := 0,
        OpenClosedSlotsMinDelayBetweenRequests := pv_openClosedSlotsMinDelayBetweenRequests v,
        MaxNumberOfConsecutiveFailedRounds := pv_maxNumberOfConsecutiveFailedRounds v,
        ProcessingLoopSleepTime := pv_processingLoopSleepTime v,
        RoundTimeOut := pv_roundTimeOut v,
        TrusteeCacheLowBound := pv_trusteeCacheLowBound v,
        TrusteeCacheHighBound := pv_trusteeCacheHighBound v,
        EquivocationProtectionEnabled' := pv_equivocationProtectionEnabled v,
        ForceDisruptionSinceRound3 := pv_ForceDisruptionSinceRound3 v,
        MessageHistory := XOF ''init'',
        VerifiableDCNetKeys := replicate (nat (pv_nTrustees v)) None,
        nVkeysCollected := 0,
        roundManager :=
          NewBufferableRoundManager ops (pv_nClients v) (pv_nTrustees v) (pv_windowSize v),
        dcNetType := pv_dcNetType v,
        pcapLogger := NewPCAPLog,
        DisruptionProtectionEnabled' := pv_disruptionProtection v,
        clientBitMap := Map.empty,
        trusteeBitMap := Map.empty,
        OpenClosedSlotsRequestsRoundID := Map.empty,
        LastMessageOfClients := Map.empty,
        BEchoFlags := Map.empty,
        CiphertextsHistoryTrustees :=
          (\<lambda>j. if 0 \<le> j \<and> j < int32 (pv_nTrustees v) then Some Map.empty else None),
        CiphertextsHistoryClients :=
          (\<lambda>i. if 0 \<le> i \<and> i < int32 (pv_nClients v) then Some Map.empty else None)\<rparr>"

text \<open>
  \<open>Received_ALL_ALL_PARAMETERS\<close>. The result is the error returned (\<open>None\<close> for
  \<open>nil\<close>) or the panic raised, and the relay as the call leaves it. The size check
  comes after the reads and before the first assignment. \<open>make\<close> panics on a negative
  length: for \<open>nClients\<close> before anything is assigned, for \<open>nTrustees\<close> after
  \<open>clients\<close> is.
\<close>

definition Received_ALL_ALL_PARAMETERS ::
  "'rm RoundManagerOps \<Rightarrow> 'rm PriFiLibRelayInstance \<Rightarrow> ALL_ALL_PARAMETERS
     \<Rightarrow> failure option \<times> 'rm PriFiLibRelayInstance" where
  "Received_ALL_ALL_PARAMETERS ops p msg =
     (case readParameters (relayState p) msg of
        Inl err \<Rightarrow> (Some (Crash err), p)
      | Inr v \<Rightarrow>
          if pv_payloadSize v < 1 then (Some (Error ''payloadSize cannot be 0''), p)
          else if pv_nClients v < 0 then (Some (Crash NegativeLength), p)
          else
            let p1 = setState p (\<lambda>rs. rs\<lparr>clients := replicate (nat (pv_nClients v)) emptyNode\<rparr>)
            in if pv_nTrustees v < 0 then (Some (Crash NegativeLength), p1)
               else
                 let p2 = setState p1 (assignParameters ops v)
                 in if pv_dcNetType v = ''Verifiable'' then (Some (Crash NotImplemented), p2)
                    else
                      let p3 =
                            (if \<not> DoSendStopResumeMessages ops (roundManager (relayState p2))
                             then setState p2 (\<lambda>rs. rs\<lparr>roundManager :=
                                    AddRateLimiter ops (roundManager rs) (TrusteeCacheLowBound rs)
                                      (TrusteeCacheHighBound rs)\<rparr>)
                             else p2);
                          p4 = (if pv_startNow v
                                then BroadcastParameters (ChangeState p3 ''COLLECTING_TRUSTEES_PKS'')
                                else p3)
                      in (None, p4))"

subsection \<open>Entering the communication phase\<close>

text \<open>
  \<open>Received_TRU_REL_SHUFFLE_SIG\<close>. The relay's Neff-shuffle view is not in the sources;
  the results of its two calls are arguments: \<open>collected\<close> is what
  \<open>ReceivedSignatureFromTrustee\<close> returns (an error, or whether all signatures are
  in), \<open>verified\<close> what \<open>VerifySigsAndSendToClients\<close> returns (an error, or the message
  for the clients).
\<close>

definition Received_TRU_REL_SHUFFLE_SIG ::
  "'rm RoundManagerOps \<Rightarrow> 'rm PriFiLibRelayInstance \<Rightarrow> string + bool \<Rightarrow> string + message
     \<Rightarrow> failure option \<times> 'rm PriFiLibRelayInstance" where
  "Received_TRU_REL_SHUFFLE_SIG ops p collected verified =
     (case collected of
        Inl err \<Rightarrow>
          (Some (Error (''Could not do p.relayState.neffShuffle.ReceivedSignatureFromTrustee(), error is ''
                        @ err)), p)
      | Inr done \<Rightarrow>
          if done
          then (case verified of
                  Inl err \<Rightarrow>
                    (Some (Error (''Could not do p.relayState.neffShuffle.VerifySigsAndSendToClients(), error is ''
                                  @ err)), p)
                | Inr msg \<Rightarrow>
                    let p1 = setState p (\<lambda>rs. rs\<lparr>roundManager := OpenNextRound ops (roundManager rs)\<rparr>);
                        p2 = ChangeState p1 ''COMMUNICATING'';
                        p3 = fold (\<lambda>i q. SendToClientWithLog q i msg)
                               (upto_int (nClients (relayState p2))) p2;
                        p4 = setState p3 (\<lambda>rs. rs\<lparr>numberOfNonAckedDownstreamPackets := 1\<rparr>)
                    in (None, p4))
          else (None, p))"

subsection \<open>Downstream: opening a round and sending the cell\<close>

text \<open>A non-blocking receive from a channel: the first queued value, if any.\<close>

definition tryReceive :: "'a list \<Rightarrow> 'a option \<times> 'a list" where
  "tryReceive q = (case q of [] \<Rightarrow> (None, []) | x # xs \<Rightarrow> (Some x, xs))"

definition len :: "byte list option \<Rightarrow> int" where
  "len b = (case b of None \<Rightarrow> 0 | Some bs \<Rightarrow> int (length bs))"

text \<open>
  The echo of the disruption protection: when the flag stored for the round closed
  last is 1, the content becomes the message stored for the round \<open>nClients\<close> rounds
  before it (\<open>nil\<close> when nothing is stored under that key).
\<close>

definition echoContent ::
  "'rm RoundManagerOps \<Rightarrow> 'rm RelayState \<Rightarrow> byte list option \<Rightarrow> byte list option" where
  "echoContent ops rs downstreamCellContent =
     (if DisruptionProtectionEnabled' rs
      then (if (case BEchoFlags rs (lastRoundClosed ops (roundManager rs)) of
                  None \<Rightarrow> 0 | Some b \<Rightarrow> b) = 1
            then (let previousRound =
                        sub32 (lastRoundClosed ops (roundManager rs)) (int32 (nClients rs))
                  in LastMessageOfClients rs previousRound)
            else downstreamCellContent)
      else downstreamCellContent)"

definition padDown :: "'rm RelayState \<Rightarrow> byte list option \<Rightarrow> byte list option" where
  "padDown rs downstreamCellContent =
     (if UseDummyDataDown rs \<and> len downstreamCellContent < DownstreamCellSize rs
      then Some (payloadBytes downstreamCellContent
                 @ replicate (nat (DownstreamCellSize rs) - length (payloadBytes downstreamCellContent)) 0)
      else downstreamCellContent)"

definition sendDown ::
  "'rm PriFiLibRelayInstance \<Rightarrow> REL_CLI_DOWNSTREAM_DATA \<Rightarrow> 'rm PriFiLibRelayInstance" where
  "sendDown p toSend =
     (if \<not> UseUDP (relayState p)
      then fold (\<lambda>i q. SendToClientWithLog q i (MSG_REL_CLI_DOWNSTREAM_DATA toSend))
             (upto_int (nClients (relayState p))) p
      else BroadcastToAllClientsWithLog p (MSG_REL_CLI_DOWNSTREAM_DATA_UDP toSend))"

text \<open>
  \<open>downstreamPhase1_openRoundAndSendData\<close>; \<open>downstreamMessage\<close> is the cell it builds
  (\<open>toSend\<close>).
\<close>

definition downstreamContent ::
  "'rm RoundManagerOps \<Rightarrow> 'rm RelayState \<Rightarrow> byte list option" where
  "downstreamContent ops rs =
     (let (priority, q1) = tryReceive (PriorityDataForClients rs);
          content1 =
            (if priority = None
             then (case fst (tryReceive (DataForClients rs)) of
                     None \<Rightarrow> Some (replicate 1 0)
                   | Some d \<Rightarrow> Some d)
             else priority)
      in padDown rs (echoContent ops rs content1))"

definition downstreamMessage ::
  "'rm RoundManagerOps \<Rightarrow> 'rm RelayState \<Rightarrow> REL_CLI_DOWNSTREAM_DATA" where
  "downstreamMessage ops rs =
     \<lparr>RoundID = NextRoundToOpen ops (roundManager rs),
      OwnershipID = fst (UpdateAndGetNextOwnerID ops (roundManager rs)),
      HashOfPreviousUpstreamData = HashOfLastUpstreamMessage rs,
      Data = downstreamContent ops rs,
      FlagResync = False,
      FlagOpenClosedRequest =
        (UseOpenClosedSlots rs
         \<and> IsNextDownstreamRoundForOpenClosedRequest ops (roundManager rs) (nClients rs))\<rparr>"

definition downstreamPhase1_openRoundAndSendData ::
  "'rm RoundManagerOps \<Rightarrow> 'rm PriFiLibRelayInstance \<Rightarrow> 'rm PriFiLibRelayInstance" where
  "downstreamPhase1_openRoundAndSendData ops p =
     (let rs = relayState p;
          (priority, q1) = tryReceive (PriorityDataForClients rs);
          q2 = (if priority = None then snd (tryReceive (DataForClients rs)) else DataForClients rs);
          toSend = downstreamMessage ops rs;
          nextDownstreamRoundID = RoundID toSend;
          p1 = setState p (\<lambda>rs. rs\<lparr>
                 PriorityDataForClients := q1,
                 DataForClients := q2,
                 OpenClosedSlotsRequestsRoundID :=
                   (if FlagOpenClosedRequest toSend
                    then (OpenClosedSlotsRequestsRoundID rs)(nextDownstreamRoundID \<mapsto> True)
                    else OpenClosedSlotsRequestsRoundID rs),
                 roundManager :=
                   SetDataAlreadySent ops
                     (OpenNextRound ops (snd (UpdateAndGetNextOwnerID ops (roundManager rs))))
                     nextDownstreamRoundID toSend\<rparr>);
          p2 = sendDown p1 toSend
      in setState p2 (\<lambda>rs. rs\<lparr>numberOfNonAckedDownstreamPackets :=
                                 numberOfNonAckedDownstreamPackets rs + 1\<rparr>))"

lemma relayState_fold_SendToClient:
  "relayState (fold (\<lambda>i q. SendToClientWithLog q i (m i)) xs p) = relayState p"
  by (induction xs arbitrary: p) (simp_all add: SendToClientWithLog_def)

lemma relayState_fold_SendToTrustee:
  "relayState (fold (\<lambda>i q. SendToTrusteeWithLog q i (m i)) xs p) = relayState p"
  by (induction xs arbitrary: p) (simp_all add: SendToTrusteeWithLog_def)

lemma relayState_sendDown: "relayState (sendDown p m) = relayState p"
  by (simp add: sendDown_def relayState_fold_SendToClient BroadcastToAllClientsWithLog_def)

lemma WindowSize_downstreamPhase1:
  "WindowSize (relayState (downstreamPhase1_openRoundAndSendData ops p)) = WindowSize (relayState p)"
  by (simp add: downstreamPhase1_openRoundAndSendData_def setState_def relayState_sendDown
      Let_def split_beta)

text \<open>
  \<open>downstreamPhase_sendMany\<close>:
  \<open>for i := numberOfNonAckedDownstreamPackets; i < WindowSize; i++\<close>.
\<close>

function sendLoop ::
  "'rm RoundManagerOps \<Rightarrow> 'rm PriFiLibRelayInstance \<Rightarrow> int \<Rightarrow> 'rm PriFiLibRelayInstance" where
  "sendLoop ops p i =
     (if i < WindowSize (relayState p)
      then sendLoop ops (downstreamPhase1_openRoundAndSendData ops p) (i + 1)
      else p)"
  by pat_completeness auto
termination
  by (relation "measure (\<lambda>(ops, p, i). nat (WindowSize (relayState p) - i))")
     (simp_all add: WindowSize_downstreamPhase1)

declare sendLoop.simps [simp del]

definition downstreamPhase_sendMany ::
  "'rm RoundManagerOps \<Rightarrow> 'rm PriFiLibRelayInstance \<Rightarrow> 'rm PriFiLibRelayInstance" where
  "downstreamPhase_sendMany ops p =
     sendLoop ops p (numberOfNonAckedDownstreamPackets (relayState p))"

subsection \<open>Upstream: storing the decoded cell, closing the round\<close>

definition bytesOf :: "string \<Rightarrow> byte list" where
  "bytesOf str = map of_char str"

definition be_uint :: "byte list \<Rightarrow> int" where
  "be_uint bs = foldl (\<lambda>acc b. acc * 256 + uint b) 0 bs"

text \<open>
  The part of \<open>upstreamPhase2b_extractPayload\<close> after the decoding: \<open>upstreamPlaintext\<close>
  and \<open>ciphertext\<close> are what \<open>DecodeCell\<close> returned (slices that are not \<open>nil\<close>), \<open>sha\<close>
  is SHA-256. The branch for PCAP meta-messages (pattern 21845) feeds the statistics
  and the packet log only, and panics on a cell that is too short for its fields; it
  is left out, so the model goes on where that branch would panic. The result is the
  error returned or the panic raised, and the relay.
\<close>

definition storeDisruptionData ::
  "(byte list \<Rightarrow> byte list) \<Rightarrow> int \<Rightarrow> byte list \<Rightarrow> 'rm PriFiLibRelayInstance
     \<Rightarrow> 'rm PriFiLibRelayInstance" where
  "storeDisruptionData sha roundID upstreamPlaintext p =
     (let b_echo_last = hd upstreamPlaintext;
          p1 = setState p (\<lambda>rs. rs\<lparr>BEchoFlags := (BEchoFlags rs)(roundID \<mapsto> b_echo_last),
                                     DisruptionReveal := False\<rparr>);
          rs1 = relayState p1;
          previousRound = sub32 roundID (int32 (nClients rs1));
          p2 = (if b_echo_last = 1 \<and> length upstreamPlaintext > 13
                   \<and> take 5 (drop 1 upstreamPlaintext) = bytesOf ''BLAME''
                then
                  (let blameBitPosition = be_uint (take 4 (drop 10 upstreamPlaintext));
                       blameRoundID = sub32 previousRound (int32 (nClients rs1));
                       q = setState p1 (\<lambda>rs. rs\<lparr>DisruptionReveal := True,
                                                  blamingData := (blameRoundID, blameBitPosition)\<rparr>);
                       toSend = MSG_REL_ALL_DISRUPTION_REVEAL (int32 blameRoundID) blameBitPosition;
                       q1 = fold (\<lambda>j q. SendToClientWithLog q j toSend) (upto_int (nClients rs1)) q
                   in fold (\<lambda>j q. SendToTrusteeWithLog q j toSend) (upto_int (nTrustees rs1)) q1)
                else p1);
          rest = tl upstreamPlaintext
      in if \<not> EquivocationProtectionEnabled' (relayState p2)
         then setState p2 (\<lambda>rs. rs\<lparr>LastMessageOfClients := (LastMessageOfClients rs)(roundID \<mapsto> rest),
                                    HashOfLastUpstreamMessage := sha rest\<rparr>)
         else p2)"

definition upstreamPhase2b_extractPayload ::
  "'rm RoundManagerOps \<Rightarrow> (byte list \<Rightarrow> byte list) \<Rightarrow> 'rm PriFiLibRelayInstance
     \<Rightarrow> byte list \<Rightarrow> byte list \<Rightarrow> failure option \<times> 'rm PriFiLibRelayInstance" where
  "upstreamPhase2b_extractPayload ops sha p upstreamPlaintext ciphertext =
     (let roundID = CurrentRound ops (roundManager (relayState p));
          p1 = (if EquivocationProtectionEnabled' (relayState p) \<and> DisruptionProtectionEnabled' (relayState p)
                then setState p (\<lambda>rs. rs\<lparr>HashOfLastUpstreamMessage := sha ciphertext,
                       LastMessageOfClients := (LastMessageOfClients rs)(roundID \<mapsto> ciphertext)\<rparr>)
                else p)
      in if DisruptionProtectionEnabled' (relayState p1) \<and> upstreamPlaintext = []
         then (Some (Crash IndexOutOfRange), p1)
         else
           let p2 = (if DisruptionProtectionEnabled' (relayState p1)
                     then storeDisruptionData sha roundID upstreamPlaintext p1 else p1);
               plain = (if DisruptionProtectionEnabled' (relayState p1)
                        then tl upstreamPlaintext else upstreamPlaintext);
               p3 = (if length plain \<ge> 2 \<and> be_uint (take 2 plain) = 43690
                     then setState p2 (\<lambda>rs. rs\<lparr>PriorityDataForClients :=
                                                  PriorityDataForClients rs @ [plain]\<rparr>)
                     else p2);
               rs3 = relayState p3;
               expectedSize = PayloadSize rs3
                              - (if DisruptionProtectionEnabled' rs3 then 1 else 0)
                              - (if EquivocationProtectionEnabled' rs3 then 16 else 0)
           in if int (length plain) \<noteq> expectedSize
              then (Some (Error ''Relay : DecodeCell produced wrong-size payload''), p3)
              else (None,
                    if DataOutputEnabled rs3
                    then setState p3 (\<lambda>rs. rs\<lparr>DataFromDCNet := DataFromDCNet rs @ [plain]\<rparr>)
                    else p3))"

text \<open>
  \<open>upstreamPhase3_finalizeRound\<close>: the counter of non-acked downstream packets goes
  down by one, the round is closed, and the histories are pruned.
\<close>

definition upstreamPhase3_finalizeRound ::
  "'rm RoundManagerOps \<Rightarrow> 'rm PriFiLibRelayInstance \<Rightarrow> int \<Rightarrow> 'rm PriFiLibRelayInstance" where
  "upstreamPhase3_finalizeRound ops p roundID =
     (let p1 = setState p (\<lambda>rs. rs\<lparr>
                 numberOfNonAckedDownstreamPackets := numberOfNonAckedDownstreamPackets rs - 1,
                 numberOfConsecutiveFailedRounds := 0\<rparr>);
          newRound = CurrentRound ops (roundManager (relayState p1));
          p2 = (if newRound = int32 (ExperimentRoundLimit (relayState p1))
                then Received_ALL_ALL_SHUTDOWN p1 else p1);
          p3 = setState p2 (\<lambda>rs. rs\<lparr>roundManager := CloseRound ops (roundManager rs)\<rparr>);
          p4 = setState p3 (\<lambda>rs. rs\<lparr>
                 CiphertextsHistoryTrustees :=
                   (\<lambda>j. map_option (\<lambda>m. m(roundID := None)) (CiphertextsHistoryTrustees rs j)),
                 CiphertextsHistoryClients :=
                   (\<lambda>i. map_option (\<lambda>m. m(roundID := None)) (CiphertextsHistoryClients rs i))\<rparr>)
      in setState p4 (\<lambda>rs.
           let earliest = sub32 (lastRoundClosed ops (roundManager rs)) (int32 (nClients rs))
           in rs\<lparr>LastMessageOfClients :=
                   (\<lambda>k. if k < earliest then None else LastMessageOfClients rs k)\<rparr>))"

text \<open>
  \<open>upstreamPhase1_processCiphers\<close>, called when all ciphers of the current round are
  in. \<open>decoded\<close> is the outcome of collecting and decoding them (\<open>None\<close> when
  \<open>CollectRoundData\<close> fails); for an open-closed round \<open>schedule\<close> is the schedule that
  the slot scheduler computes from the decoded map. An error of the extraction is
  logged and the round goes on; a panic ends the call.
\<close>

definition upstreamPhase1_processCiphers ::
  "'rm RoundManagerOps \<Rightarrow> (byte list \<Rightarrow> byte list) \<Rightarrow> 'rm PriFiLibRelayInstance
     \<Rightarrow> (byte list \<times> byte list) option \<Rightarrow> (int \<rightharpoonup> bool)
     \<Rightarrow> panic + 'rm PriFiLibRelayInstance" where
  "upstreamPhase1_processCiphers ops sha p decoded schedule =
     (let roundID = CurrentRound ops (roundManager (relayState p));
          isOCRound = (OpenClosedSlotsRequestsRoundID (relayState p) roundID \<noteq> None);
          extracted =
            (case decoded of
               None \<Rightarrow> (None, p)
             | Some (upstreamPlaintext, ciphertext) \<Rightarrow>
                 if isOCRound
                 then (None, setState p (\<lambda>rs. rs\<lparr>roundManager :=
                                SetStoredRoundSchedule ops (roundManager rs) schedule\<rparr>))
                 else upstreamPhase2b_extractPayload ops sha p upstreamPlaintext ciphertext)
      in case fst extracted of
           Some (Crash err) \<Rightarrow> Inl err
         | _ \<Rightarrow>
             Inr (downstreamPhase_sendMany ops
                    (upstreamPhase3_finalizeRound ops (snd extracted) roundID)))"

subsection \<open>The states the relay can reach\<close>

definition setupStates :: "string list" where
  "setupStates =
     [''COLLECTING_TRUSTEES_PKS'', ''COLLECTING_CLIENT_PKS'', ''COLLECTING_SHUFFLES'',
      ''COLLECTING_SHUFFLE_SIGNATURES'']"

text \<open>
  Modelled from the spec: the order in which the relay's state machine (not in the
  sources) admits the handlers, section 4.6 of the spec. The parameters arrive in
  \<open>IDLE\<close>; the handlers of the setup phase move the relay between the collecting
  states; the last signature moves it from \<open>COLLECTING_SHUFFLE_SIGNATURES\<close> to
  \<open>COMMUNICATING\<close>; rounds are processed in \<open>COMMUNICATING\<close>; a shutdown may arrive
  at any time. Of the setup handlers (\<open>Received_TRU_REL_TELL_PK\<close>,
  \<open>Received_CLI_REL_TELL_PK_AND_EPH_PK\<close>, \<open>Received_TRU_REL_TELL_NEW_BASE_AND_EPH_PKS\<close>)
  the rule \<open>by_setup\<close> keeps what matters for the window: they assign neither
  \<open>WindowSize\<close> nor \<open>numberOfNonAckedDownstreamPackets\<close>. The handlers that buffer a
  cipher (\<open>Received_CLI_REL_UPSTREAM_DATA\<close>, \<open>Received_TRU_REL_DC_CIPHER\<close>,
  \<open>Received_CLI_REL_OPENCLOSED_DATA\<close>) store it, which assigns neither of the two and
  leaves the state machine where it is (rule \<open>by_other\<close>, which also covers the
  timers), and then process the round when it is complete (rule \<open>by_round\<close>). The
  other handlers are the functions above.
\<close>

inductive reachable ::
  "'rm RoundManagerOps \<Rightarrow> (byte list \<Rightarrow> byte list) \<Rightarrow> 'rm PriFiLibRelayInstance \<Rightarrow> bool"
  for ops :: "'rm RoundManagerOps" and sha :: "byte list \<Rightarrow> byte list" where
  by_parameters:
    "stateMachine p = ''IDLE'' \<Longrightarrow> Received_ALL_ALL_PARAMETERS ops p msg = (None, p')
     \<Longrightarrow> reachable ops sha p'"
| by_setup:
    "reachable ops sha p \<Longrightarrow> stateMachine p \<in> set setupStates
     \<Longrightarrow> stateMachine p' \<in> set setupStates
     \<Longrightarrow> WindowSize (relayState p') = WindowSize (relayState p)
     \<Longrightarrow> numberOfNonAckedDownstreamPackets (relayState p')
           = numberOfNonAckedDownstreamPackets (relayState p)
     \<Longrightarrow> reachable ops sha p'"
| by_signature:
    "reachable ops sha p \<Longrightarrow> stateMachine p = ''COLLECTING_SHUFFLE_SIGNATURES''
     \<Longrightarrow> Received_TRU_REL_SHUFFLE_SIG ops p collected verified = (None, p')
     \<Longrightarrow> reachable ops sha p'"
| by_round:
    "reachable ops sha p \<Longrightarrow> stateMachine p = ''COMMUNICATING''
     \<Longrightarrow> upstreamPhase1_processCiphers ops sha p decoded schedule = Inr p'
     \<Longrightarrow> reachable ops sha p'"
| by_other:
    "reachable ops sha p \<Longrightarrow> stateMachine p' = stateMachine p
     \<Longrightarrow> WindowSize (relayState p') = WindowSize (relayState p)
     \<Longrightarrow> numberOfNonAckedDownstreamPackets (relayState p')
           = numberOfNonAckedDownstreamPackets (relayState p)
     \<Longrightarrow> reachable ops sha p'"
| by_shutdown:
    "reachable ops sha p \<Longrightarrow> reachable ops sha (Received_ALL_ALL_SHUTDOWN p)"

subsection \<open>The rate limiter of the round manager\<close>


datatype bufferEvent = CipherBuffered int | CipherConsumed int

fun eventTrustee :: "bufferEvent \<Rightarrow> int" where
  "eventTrustee (CipherBuffered j) = j"
| "eventTrustee (CipherConsumed j) = j"







subsection \<open>A small relay for the instances\<close>

text \<open>
  A round manager that only counts: the round closed last and the next round to open.
\<close>

definition demoOps :: "(int \<times> int) RoundManagerOps" where
  "demoOps =
     \<lparr>NewBufferableRoundManager = (\<lambda>nc nt w. (- 1, 0)),
      DoSendStopResumeMessages = (\<lambda>rm. False),
      AddRateLimiter = (\<lambda>rm low high. rm),
      lastRoundClosed = fst,
      CurrentRound = (\<lambda>rm. fst rm + 1),
      NextRoundToOpen = snd,
      IsNextDownstreamRoundForOpenClosedRequest = (\<lambda>rm n. False),
      UpdateAndGetNextOwnerID = (\<lambda>rm. (0, rm)),
      OpenNextRound = (\<lambda>rm. (fst rm, snd rm + 1)),
      SetDataAlreadySent = (\<lambda>rm r m. rm),
      SetStoredRoundSchedule = (\<lambda>rm s. rm),
      CloseRound = (\<lambda>rm. (fst rm + 1, snd rm))\<rparr>"

definition demoRelayState :: "(int \<times> int) RelayState" where
  "demoRelayState =
     \<lparr>clients = [], trustees = [], nClients = 0, nTrustees = 0, nTrusteesPkCollected = 0,
      nClientsPkCollected = 0, ExperimentRoundLimit = - 1, PayloadSize = 100,
      DownstreamCellSize = 0, bitrateStatistics = NewBitRateStatistics 100,
      UseDummyDataDown = False, UseOpenClosedSlots = False, UseUDP = False, WindowSize = 1,
      numberOfNonAckedDownstreamPackets = 0, OpenClosedSlotsMinDelayBetweenRequests = 0,
      MaxNumberOfConsecutiveFailedRounds = 0, ProcessingLoopSleepTime = 0, RoundTimeOut = 0,
      TrusteeCacheLowBound = 3, TrusteeCacheHighBound = 5,
      EquivocationProtectionEnabled' = False, ForceDisruptionSinceRound3 = False,
      MessageHistory = XOF ''init'', VerifiableDCNetKeys = [], nVkeysCollected = 0,
      roundManager = (- 1, 0), dcNetType = ''Simple'', pcapLogger = NewPCAPLog,
      DisruptionProtectionEnabled' = False, clientBitMap = Map.empty,
      trusteeBitMap = Map.empty, OpenClosedSlotsRequestsRoundID = Map.empty,
      LastMessageOfClients = Map.empty, BEchoFlags = Map.empty,
      CiphertextsHistoryTrustees = Map.empty, CiphertextsHistoryClients = Map.empty,
      HashOfLastUpstreamMessage = [], DisruptionReveal = False, blamingData = (0, 0),
      PriorityDataForClients = [], DataForClients = [], DataFromDCNet = [],
      DataOutputEnabled = False, numberOfConsecutiveFailedRounds = 0\<rparr>"

definition demoIdleRelay :: "(int \<times> int) PriFiLibRelayInstance" where
  "demoIdleRelay = \<lparr>relayState = demoRelayState, stateMachine = ''IDLE'', messageSender = []\<rparr>"

definition demoParameters :: "int \<Rightarrow> int \<Rightarrow> ALL_ALL_PARAMETERS" where
  "demoParameters payloadSize windowSize =
     Add (Add (Add (Add (Add emptyParameters ''StartNow'' (BoolData True))
       ''NClients'' (IntData 2)) ''NTrustees'' (IntData 1))
       ''PayloadSize'' (IntData payloadSize)) ''WindowSize'' (IntData windowSize)"

text \<open>
  The small relay after the parameters (payload size 100, window \<open>w\<close>, start now),
  and after the last shuffle signature.
\<close>

definition demoConfigured :: "int \<Rightarrow> (int \<times> int) PriFiLibRelayInstance" where
  "demoConfigured w = snd (Received_ALL_ALL_PARAMETERS demoOps demoIdleRelay (demoParameters 100 w))"

definition demoCommunicating :: "int \<Rightarrow> (int \<times> int) PriFiLibRelayInstance" where
  "demoCommunicating w =
     snd (Received_TRU_REL_SHUFFLE_SIG demoOps
            ((demoConfigured w)\<lparr>stateMachine := ''COLLECTING_SHUFFLE_SIGNATURES''\<rparr>)
            (Inr True) (Inr (MSG_REL_CLI_TELL_EPH_PKS_AND_TRUSTEES_SIG [])))"

text \<open>
  A relay with three clients and disruption protection (payload size 3, window 1),
  after closing round 11: the upstream cell of round 11 carried \<open>b_echo_last = 1\<close>,
  those of the rounds before carried 0; the messages of rounds 8 to 11 are in the
  history.
\<close>

definition demoEchoRelay :: "(int \<times> int) PriFiLibRelayInstance" where
  "demoEchoRelay =
     \<lparr>relayState = demoRelayState\<lparr>
        nClients := 3, nTrustees := 1, PayloadSize := 3, DisruptionProtectionEnabled' := True,
        WindowSize := 1, roundManager := (11, 12),
        BEchoFlags := [8 \<mapsto> 0, 9 \<mapsto> 0, 10 \<mapsto> 0, 11 \<mapsto> 1],
        LastMessageOfClients :=
          [8 \<mapsto> [8, 8], 9 \<mapsto> [9, 9], 10 \<mapsto> [10, 10], 11 \<mapsto> [11, 11]]\<rparr>,
      stateMachine = ''COMMUNICATING'', messageSender = []\<rparr>"

text \<open>
  The same relay while round 8 is open, and the rounds 8 to 11 processed from there:
  the decoded cells are \<open>[0, 8, 8]\<close>, \<open>[0, 9, 9]\<close>, \<open>[0, 10, 10]\<close> and \<open>[1, 11, 11]\<close>, the
  first byte of a cell being \<open>b_echo_last\<close>.
\<close>

definition demoEchoStart :: "(int \<times> int) PriFiLibRelayInstance" where
  "demoEchoStart =
     \<lparr>relayState = demoRelayState\<lparr>
        nClients := 3, nTrustees := 1, PayloadSize := 3, DisruptionProtectionEnabled' := True,
        WindowSize := 1, numberOfNonAckedDownstreamPackets := 1, roundManager := (7, 9)\<rparr>,
      stateMachine = ''COMMUNICATING'', messageSender = []\<rparr>"

text \<open>The downstream cells among the messages handed to the sender, with their receivers.\<close>

definition sentCells ::
  "(destination \<times> message) list \<Rightarrow> (destination \<times> REL_CLI_DOWNSTREAM_DATA) list" where
  "sentCells msgs =
     concat (map (\<lambda>(d, m). case m of
                              MSG_REL_CLI_DOWNSTREAM_DATA c \<Rightarrow> [(d, c)]
                            | MSG_REL_CLI_DOWNSTREAM_DATA_UDP c \<Rightarrow> [(d, c)]
                            | _ \<Rightarrow> []) msgs)"

definition demoRound ::
  "byte list \<Rightarrow> (int \<times> int) PriFiLibRelayInstance \<Rightarrow> (int \<times> int) PriFiLibRelayInstance" where
  "demoRound cell p =
     projr (upstreamPhase1_processCiphers demoOps (\<lambda>bs. bs) p (Some (cell, cell)) Map.empty)"

definition demoEchoRun :: "(int \<times> int) PriFiLibRelayInstance" where
  "demoEchoRun =
     demoRound [1, 11, 11] (demoRound [0, 10, 10] (demoRound [0, 9, 9]
       (demoRound [0, 8, 8] demoEchoStart)))"

section \<open>Properties of the DC-net entity\<close>

lemma make_bytes_length: "make_bytes n = Inr bs \<Longrightarrow> int (length bs) = n"
  by (auto simp: make_bytes_def split: if_splits)

lemma XORKeyStream_zeros:
  "XORKeyStream g (replicate n 0) = (padOf (int n) g, advance n g)"
  by (simp add: XORKeyStream_def padOf_def advance_def)

lemma preparePads_eq:
  "0 \<le> n \<Longrightarrow> preparePads n gs = Inr (map (padOf n) gs, map (advance (nat n)) gs)"
  by (induction gs) (simp_all add: make_bytes_def XORKeyStream_zeros)

lemma advance_advance: "advance a (advance b g) = advance (b + a) g"
  by (simp add: advance_def add.assoc)

lemma advance_0: "advance 0 = id"
  by (rule ext) (simp add: advance_def)

lemma skipRounds_eq:
  "0 \<le> DCNetContentSize e \<Longrightarrow> currentRound e \<le> r \<Longrightarrow>
   skipRounds e r =
     Inr (e\<lparr>sharedPRNGs := map (advance (nat (r - currentRound e) * nat (DCNetContentSize e))) (sharedPRNGs e),
            currentRound := r\<rparr>)"
proof (induction e r rule: skipRounds.induct)
  case (1 e roundID)
  show ?case
  proof (cases "currentRound e < roundID")
    case False
    with 1(3) have "currentRound e = roundID" by simp
    then show ?thesis
      by (subst skipRounds.simps) (simp add: advance_0)
  next
    case True
    let ?n = "DCNetContentSize e"
    let ?e' = "e\<lparr>sharedPRNGs := map (advance (nat ?n)) (sharedPRNGs e), currentRound := currentRound e + 1\<rparr>"
    have pp: "preparePads ?n (sharedPRNGs e) = Inr (map (padOf ?n) (sharedPRNGs e), map (advance (nat ?n)) (sharedPRNGs e))"
      using 1(2) by (rule preparePads_eq)
    have IH: "skipRounds ?e' roundID =
      Inr (?e'\<lparr>sharedPRNGs := map (advance (nat (roundID - currentRound ?e') * nat (DCNetContentSize ?e'))) (sharedPRNGs ?e'),
            currentRound := roundID\<rparr>)"
      using "1.IH"[OF True pp refl] 1(2) True by simp
    have arith: "nat ?n + nat (roundID - (currentRound e + 1)) * nat ?n = nat (roundID - currentRound e) * nat ?n"
    proof -
      have "nat (roundID - currentRound e) = Suc (nat (roundID - (currentRound e + 1)))"
        using True by simp
      then show ?thesis by simp
    qed
    show ?thesis
      apply (subst skipRounds.simps)
      using True pp IH arith
      by (simp add: advance_advance o_def)
  qed
qed

lemma length_vxor [simp]: "length (vxor a b) = length a"
  by (simp add: vxor_def)

lemma nth_vxor: "k < length a \<Longrightarrow> vxor a b ! k = (a ! k) XOR (b ! k)"
  by (simp add: vxor_def)

lemma length_foldl_vxor [simp]: "length (foldl vxor a bs) = length a"
  by (induction bs arbitrary: a) simp_all

lemma xsum_Nil [simp]: "xsum [] = 0"
  by (simp add: xsum_def)

lemma xsum_Cons [simp]: "xsum (x # xs) = x XOR xsum xs"
  by (simp add: xsum_def)

lemma xsum_append: "xsum (xs @ ys) = xsum xs XOR xsum ys"
  by (induction xs) (simp_all add: ac_simps)

lemma nth_foldl_vxor:
  "k < length a \<Longrightarrow> foldl vxor a bs ! k = (a ! k) XOR xsum (map (\<lambda>b. b ! k) bs)"
proof (induction bs arbitrary: a)
  case Nil
  then show ?case by simp
next
  case (Cons b bs)
  then show ?case by (simp add: nth_vxor ac_simps)
qed

lemma xorPad_eq: "length buf \<le> length pad \<Longrightarrow> xorPad buf pad = Inr (vxor buf pad)"
  by (simp add: xorPad_def vxor_def)

lemma xorPads_eq:
  "\<forall>p \<in> set pads. length buf \<le> length p \<Longrightarrow> xorPads buf pads = Inr (foldl vxor buf pads)"
  by (induction pads arbitrary: buf) (simp_all add: xorPad_eq)

lemma xorInto_eq: "length pl = length buf \<Longrightarrow> xorInto buf pl = Inr (vxor buf pl)"
  by (simp add: xorInto_def vxor_def)

lemma xsum_map_xor:
  "xsum (map (\<lambda>i. f i XOR g i) is) = xsum (map f is) XOR xsum (map g is)"
  by (induction "is") (simp_all add: ac_simps)

lemma xsum_zero: "xsum (map (\<lambda>i. 0) is) = 0"
  by (induction "is") simp_all

lemma xsum_swap:
  "xsum (map (\<lambda>i. xsum (map (\<lambda>j. A i j) js)) is) = xsum (map (\<lambda>j. xsum (map (\<lambda>i. A i j) is)) js)"
proof (induction "is")
  case Nil
  then show ?case by (simp add: xsum_zero)
next
  case (Cons i "is")
  then show ?case by (simp add: xsum_map_xor)
qed

lemma xsum_single:
  "xsum (map (\<lambda>i. if i = o' then x else 0) [0..<n]) = (if o' < n then x else 0)"
  by (induction n) (auto simp: xsum_append)

lemma length_padOf [simp]: "length (padOf n g) = nat n"
  by (simp add: padOf_def)

lemma collect_map_Inr:
  "\<forall>x \<in> set xs. f x = Inr (g x) \<Longrightarrow> collect (map f xs) = Inr (map g xs)"
  by (induction xs) simp_all

lemma clientPlaintext_skip:
  "clientPlaintext H (e\<lparr>sharedPRNGs := gs, currentRound := r\<rparr>) so pl = clientPlaintext H e so pl"
  by (cases pl) (auto simp: clientPlaintext_def GetPayloadSize_def Let_def split: sum.split)

lemma clientPlaintext_None:
  "0 \<le> DCNetContentSize e \<Longrightarrow>
   clientPlaintext H e so None = Inr (replicate (nat (DCNetContentSize e)) 0)"
  by (simp add: clientPlaintext_def make_bytes_def)

lemma clientPlaintext_Some:
  "int (length P) \<le> GetPayloadSize e \<Longrightarrow>
   clientPlaintext H e so (Some P) =
     Inr (if so \<and> DisruptionProtectionEnabled e
          then computeHmac256 H (EntityID e) [] @ padTo (GetPayloadSize e) P
          else padTo (GetPayloadSize e) P)"
  by (auto simp: clientPlaintext_def make_bytes_def padTo_def)

lemma length_padTo: "int (length P) \<le> n \<Longrightarrow> length (padTo n P) = nat n"
  by (auto simp: padTo_def)

subsection \<open>What one call of \<open>EncodeForRound\<close> produces\<close>

lemma encode_client:
  assumes su: "sameSetup e DCNET_CLIENT cs False dis"
    and cs: "0 \<le> cs" and r: "currentRound e \<le> r"
    and plain: "clientPlaintext H e so pl = Inr plain" and len: "length plain = nat cs"
    and pl: "int (length (case pl of None \<Rightarrow> [] | Some p \<Rightarrow> p)) \<le> cs"
  shows "cipherOf (EncodeForRound H e r so pl) =
           Inr \<lparr>payload = foldl vxor plain
                   (map (\<lambda>g. padOf cs (advance (nat (r - currentRound e) * nat cs) g)) (sharedPRNGs e)),
                 equivocationProtectionTag = None\<rparr>"
proof -
  let ?s = "nat (r - currentRound e) * nat cs"
  let ?e' = "e\<lparr>sharedPRNGs := map (advance ?s) (sharedPRNGs e), currentRound := r\<rparr>"
  from su have f: "Entity e = DCNET_CLIENT" "DCNetContentSize e = cs"
    "\<not> EquivocationProtectionEnabled e" by (simp_all add: sameSetup_def)
  have skip: "skipRounds e r = Inr ?e'"
    using skipRounds_eq[of e r] cs r f by simp
  have pp: "preparePads cs (map (advance ?s) (sharedPRNGs e)) =
      Inr (map (padOf cs) (map (advance ?s) (sharedPRNGs e)),
           map (advance (nat cs)) (map (advance ?s) (sharedPRNGs e)))"
    using cs by (rule preparePads_eq)
  have xp: "xorPads plain (map (padOf cs) (map (advance ?s) (sharedPRNGs e))) =
      Inr (foldl vxor plain (map (padOf cs) (map (advance ?s) (sharedPRNGs e))))"
    by (rule xorPads_eq) (simp add: len)
  have ce: "clientEncode H ?e' so pl =
      Inr (\<lparr>payload = foldl vxor plain (map (padOf cs) (map (advance ?s) (sharedPRNGs e))),
            equivocationProtectionTag = None\<rparr>,
           ?e'\<lparr>sharedPRNGs := map (advance (nat cs)) (map (advance ?s) (sharedPRNGs e))\<rparr>)"
    unfolding clientEncode_def clientPlaintext_skip plain
    using f pp xp by simp
  show ?thesis
    unfolding EncodeForRound_def cipherOf_def
    using pl r f skip ce by (simp add: o_def)
qed

lemma encode_trustee:
  assumes su: "sameSetup e DCNET_TRUSTEE cs False dis"
    and cs: "0 \<le> cs" and r: "currentRound e \<le> r"
  shows "cipherOf (EncodeForRound H e r False None) =
           Inr \<lparr>payload = foldl vxor (replicate (nat cs) 0)
                   (map (\<lambda>g. padOf cs (advance (nat (r - currentRound e) * nat cs) g)) (sharedPRNGs e)),
                 equivocationProtectionTag = None\<rparr>"
proof -
  let ?s = "nat (r - currentRound e) * nat cs"
  let ?e' = "e\<lparr>sharedPRNGs := map (advance ?s) (sharedPRNGs e), currentRound := r\<rparr>"
  from su have f: "Entity e = DCNET_TRUSTEE" "DCNetContentSize e = cs"
    "\<not> EquivocationProtectionEnabled e" by (simp_all add: sameSetup_def)
  have skip: "skipRounds e r = Inr ?e'"
    using skipRounds_eq[of e r] cs r f by simp
  have pp: "preparePads cs (map (advance ?s) (sharedPRNGs e)) =
      Inr (map (padOf cs) (map (advance ?s) (sharedPRNGs e)),
           map (advance (nat cs)) (map (advance ?s) (sharedPRNGs e)))"
    using cs by (rule preparePads_eq)
  have xp: "xorPads (replicate (nat cs) 0) (map (padOf cs) (map (advance ?s) (sharedPRNGs e))) =
      Inr (foldl vxor (replicate (nat cs) 0) (map (padOf cs) (map (advance ?s) (sharedPRNGs e))))"
    by (rule xorPads_eq) simp
  have te: "trusteeEncode ?e' =
      Inr (\<lparr>payload = foldl vxor (replicate (nat cs) 0) (map (padOf cs) (map (advance ?s) (sharedPRNGs e))),
            equivocationProtectionTag = None\<rparr>,
           ?e'\<lparr>sharedPRNGs := map (advance (nat cs)) (map (advance ?s) (sharedPRNGs e))\<rparr>)"
    unfolding trusteeEncode_def
    using f pp xp cs by (simp add: make_bytes_def)
  show ?thesis
    unfolding EncodeForRound_def cipherOf_def
    using cs r f skip te by (simp add: o_def)
qed

subsection \<open>What the relay accumulates\<close>

lemma decodeClients_eq:
  assumes "DCNetRoundDecoder e = Some d" "currentRoundBeingDecoded d = r"
    "\<not> EquivocationProtectionEnabled e"
    "\<forall>c \<in> set cs. length (payload c) = length (xorBuffer d)"
  shows "decodeClients e r cs =
     Inr (e\<lparr>DCNetRoundDecoder := Some (d\<lparr>xorBuffer := foldl vxor (xorBuffer d) (map payload cs)\<rparr>)\<rparr>)"
  using assms
proof (induction cs arbitrary: e d)
  case Nil
  then show ?case by simp
next
  case (Cons c cs)
  let ?d' = "d\<lparr>xorBuffer := vxor (xorBuffer d) (payload c)\<rparr>"
  let ?e' = "e\<lparr>DCNetRoundDecoder := Some ?d'\<rparr>"
  have step: "DecodeClient e r c = Inr ?e'"
    using Cons.prems by (simp add: DecodeClient_def xorInto_eq)
  have "decodeClients ?e' r cs =
     Inr (?e'\<lparr>DCNetRoundDecoder := Some (?d'\<lparr>xorBuffer := foldl vxor (xorBuffer ?d') (map payload cs)\<rparr>)\<rparr>)"
    by (rule Cons.IH) (use Cons.prems in simp_all)
  then show ?case using step by simp
qed

lemma decodeTrustees_eq:
  assumes "DCNetRoundDecoder e = Some d" "currentRoundBeingDecoded d = r"
    "\<not> EquivocationProtectionEnabled e"
    "\<forall>c \<in> set cs. length (payload c) = length (xorBuffer d)"
  shows "decodeTrustees e r cs =
     Inr (e\<lparr>DCNetRoundDecoder := Some (d\<lparr>xorBuffer := foldl vxor (xorBuffer d) (map payload cs)\<rparr>)\<rparr>)"
  using assms
proof (induction cs arbitrary: e d)
  case Nil
  then show ?case by simp
next
  case (Cons c cs)
  let ?d' = "d\<lparr>xorBuffer := vxor (xorBuffer d) (payload c)\<rparr>"
  let ?e' = "e\<lparr>DCNetRoundDecoder := Some ?d'\<rparr>"
  have step: "DecodeTrustee e r c = Inr ?e'"
    using Cons.prems by (simp add: DecodeTrustee_def xorInto_eq)
  have "decodeTrustees ?e' r cs =
     Inr (?e'\<lparr>DCNetRoundDecoder := Some (?d'\<lparr>xorBuffer := foldl vxor (xorBuffer ?d') (map payload cs)\<rparr>)\<rparr>)"
    by (rule Cons.IH) (use Cons.prems in simp_all)
  then show ?case using step by simp
qed

lemma relayDecodeRound_eq:
  assumes su: "sameSetup relay role cs False dis" and cs: "0 \<le> cs"
    and lc: "\<forall>c \<in> set cts. length (payload c) = nat cs"
    and lt: "\<forall>c \<in> set tts. length (payload c) = nat cs"
  shows "relayDecodeRound relay r cts tts =
     (let buf = foldl vxor (replicate (nat cs) 0) (map payload (cts @ tts)) in
      if dis then (if cs < 32 then Inl SliceOutOfRange else Inr (drop 32 buf)) else Inr buf)"
proof -
  from su have f: "DCNetContentSize relay = cs" "\<not> EquivocationProtectionEnabled relay"
    "DisruptionProtectionEnabled relay = dis" by (simp_all add: sameSetup_def)
  let ?d0 = "\<lparr>currentRoundBeingDecoded = r, xorBuffer = replicate (nat cs) 0,
               equivTrusteeContribs = [], equivClientContribs = []\<rparr>"
  let ?e0 = "relay\<lparr>DCNetRoundDecoder := Some ?d0\<rparr>"
  have s0: "DecodeStart relay r = Inr ?e0"
    using f cs by (simp add: DecodeStart_def make_bytes_def)
  let ?d1 = "?d0\<lparr>xorBuffer := foldl vxor (xorBuffer ?d0) (map payload cts)\<rparr>"
  let ?e1 = "?e0\<lparr>DCNetRoundDecoder := Some ?d1\<rparr>"
  have s1: "decodeClients ?e0 r cts = Inr ?e1"
    by (rule decodeClients_eq) (use f lc in simp_all)
  let ?d2 = "?d1\<lparr>xorBuffer := foldl vxor (xorBuffer ?d1) (map payload tts)\<rparr>"
  let ?e2 = "?e1\<lparr>DCNetRoundDecoder := Some ?d2\<rparr>"
  have s2: "decodeTrustees ?e1 r tts = Inr ?e2"
    by (rule decodeTrustees_eq) (use f lt in simp_all)
  have s3: "DecodeCell ?e2 =
     (let buf = foldl vxor (replicate (nat cs) 0) (map payload (cts @ tts)) in
      if dis then (if cs < 32 then Inl SliceOutOfRange else Inr (drop 32 buf)) else Inr buf)"
    using f cs by (auto simp: DecodeCell_def DISRUPTION_PROTECTION_CONTRIB_LENGTH_def Let_def)
  show ?thesis
    unfolding relayDecodeRound_def s0 using s1 s2 s3 by simp
qed

lemma map_by_index: "map f xs = map (\<lambda>j. f (xs ! j)) [0..<length xs]"
  by (rule nth_equalityI) simp_all

lemma dcnet_cells_cancel:
  assumes shared: "pairwiseShared cls trs r0" and r: "r0 \<le> r"
    and cl: "\<forall>e \<in> set cls. sameSetup e DCNET_CLIENT cs False dis"
    and tr: "\<forall>e \<in> set trs. sameSetup e DCNET_TRUSTEE cs False dis"
    and rl: "sameSetup relay DCNET_RELAY cs False dis"
    and cs: "0 \<le> cs"
    and plain: "\<forall>i < length cls.
        clientPlaintext H (cls ! i) (isOwner slot i) (payloadOf slot i) = Inr (pc i)
        \<and> length (pc i) = nat cs
        \<and> int (length (case payloadOf slot i of None \<Rightarrow> [] | Some p \<Rightarrow> p)) \<le> cs"
    and cell: "length cell = nat cs"
      "\<forall>k < nat cs. xsum (map (\<lambda>i. pc i ! k) [0..<length cls]) = cell ! k"
  shows "dcnetRound H relay cls trs r slot =
     (if dis then (if cs < 32 then Inl SliceOutOfRange else Inr (drop 32 cell)) else Inr cell)"
proof -
  let ?N = "length cls" and ?M = "length trs"
  let ?s = "nat (r - r0) * nat cs"
  let ?pad = "\<lambda>g. padOf cs (advance ?s g)"
  let ?cp = "\<lambda>i. foldl vxor (pc i) (map ?pad (sharedPRNGs (cls ! i)))"
  let ?tp = "\<lambda>j. foldl vxor (replicate (nat cs) 0) (map ?pad (sharedPRNGs (trs ! j)))"
  let ?cc = "\<lambda>i. \<lparr>payload = ?cp i, equivocationProtectionTag = None\<rparr>"
  let ?tc = "\<lambda>j. \<lparr>payload = ?tp j, equivocationProtectionTag = None\<rparr>"
  from shared have
    lenC: "\<And>i. i < ?N \<Longrightarrow> length (sharedPRNGs (cls ! i)) = ?M"
    and rC: "\<And>i. i < ?N \<Longrightarrow> currentRound (cls ! i) = r0"
    and lenT: "\<And>j. j < ?M \<Longrightarrow> length (sharedPRNGs (trs ! j)) = ?N"
    and rT: "\<And>j. j < ?M \<Longrightarrow> currentRound (trs ! j) = r0"
    and sh: "\<And>i j. i < ?N \<Longrightarrow> j < ?M \<Longrightarrow>
               sharedPRNGs (cls ! i) ! j = sharedPRNGs (trs ! j) ! i"
    by (simp_all add: pairwiseShared_def)
  have encC: "cipherOf (EncodeForRound H (cls ! i) r (isOwner slot i) (payloadOf slot i)) = Inr (?cc i)"
    if "i < ?N" for i
  proof -
    have su: "sameSetup (cls ! i) DCNET_CLIENT cs False dis" using cl that by simp
    have "cipherOf (EncodeForRound H (cls ! i) r (isOwner slot i) (payloadOf slot i)) =
        Inr \<lparr>payload = foldl vxor (pc i)
                (map (\<lambda>g. padOf cs (advance (nat (r - currentRound (cls ! i)) * nat cs) g))
                   (sharedPRNGs (cls ! i))),
              equivocationProtectionTag = None\<rparr>"
      by (rule encode_client[OF su cs]) (use plain that r rC in simp_all)
    then show ?thesis using rC[OF that] by simp
  qed
  have encT: "cipherOf (EncodeForRound H (trs ! j) r False None) = Inr (?tc j)"
    if "j < ?M" for j
  proof -
    have su: "sameSetup (trs ! j) DCNET_TRUSTEE cs False dis" using tr that by simp
    have "cipherOf (EncodeForRound H (trs ! j) r False None) =
        Inr \<lparr>payload = foldl vxor (replicate (nat cs) 0)
                (map (\<lambda>g. padOf cs (advance (nat (r - currentRound (trs ! j)) * nat cs) g))
                   (sharedPRNGs (trs ! j))),
              equivocationProtectionTag = None\<rparr>"
      by (rule encode_trustee[OF su cs]) (use that r rT in simp_all)
    then show ?thesis using rT[OF that] by simp
  qed
  have cts: "clientCiphers H cls r slot = Inr (map ?cc [0..<?N])"
    unfolding clientCiphers_def by (rule collect_map_Inr) (simp add: encC)
  have tts: "trusteeCiphers H trs r = Inr (map ?tc [0..<?M])"
    unfolding trusteeCiphers_def by (rule collect_map_Inr) (simp add: encT)
  have lpc: "length (pc i) = nat cs" if "i < ?N" for i using plain that by simp
  let ?buf = "foldl vxor (replicate (nat cs) 0) (map payload (map ?cc [0..<?N] @ map ?tc [0..<?M]))"
  have dec: "relayDecodeRound relay r (map ?cc [0..<?N]) (map ?tc [0..<?M]) =
     (let buf = ?buf in
      if dis then (if cs < 32 then Inl SliceOutOfRange else Inr (drop 32 buf)) else Inr buf)"
    by (rule relayDecodeRound_eq[OF rl cs]) (auto simp: lpc)
  have buf: "?buf = cell"
  proof (rule nth_equalityI)
    show "length ?buf = length cell" using cell by simp
  next
    fix k assume "k < length ?buf"
    then have k: "k < nat cs" by simp
    let ?A = "\<lambda>i j. ?pad (sharedPRNGs (cls ! i) ! j) ! k"
    have cpk: "?cp i ! k = (pc i ! k) XOR xsum (map (\<lambda>j. ?A i j) [0..<?M])" if "i < ?N" for i
    proof -
      have "?cp i ! k = (pc i ! k) XOR xsum (map (\<lambda>b. b ! k) (map ?pad (sharedPRNGs (cls ! i))))"
        by (rule nth_foldl_vxor) (simp add: lpc[OF that] k)
      also have "map (\<lambda>b. b ! k) (map ?pad (sharedPRNGs (cls ! i))) = map (\<lambda>j. ?A i j) [0..<?M]"
        using map_by_index[of "\<lambda>g. ?pad g ! k" "sharedPRNGs (cls ! i)"] lenC[OF that]
        by (simp add: o_def)
      finally show ?thesis .
    qed
    have tpk: "?tp j ! k = xsum (map (\<lambda>i. ?A i j) [0..<?N])" if "j < ?M" for j
    proof -
      have "?tp j ! k = (replicate (nat cs) 0 ! k) XOR xsum (map (\<lambda>b. b ! k) (map ?pad (sharedPRNGs (trs ! j))))"
        by (rule nth_foldl_vxor) (simp add: k)
      also have "map (\<lambda>b. b ! k) (map ?pad (sharedPRNGs (trs ! j)))
          = map (\<lambda>i. ?pad (sharedPRNGs (trs ! j) ! i) ! k) [0..<?N]"
        using map_by_index[of "\<lambda>g. ?pad g ! k" "sharedPRNGs (trs ! j)"] lenT[OF that]
        by (simp add: o_def)
      also have "\<dots> = map (\<lambda>i. ?A i j) [0..<?N]"
        using sh that by simp
      finally show ?thesis using k by simp
    qed
    have "?buf ! k = (replicate (nat cs) 0 ! k) XOR
        xsum (map (\<lambda>b. b ! k) (map payload (map ?cc [0..<?N] @ map ?tc [0..<?M])))"
      by (rule nth_foldl_vxor) (simp add: k)
    also have "\<dots> = xsum (map (\<lambda>i. ?cp i ! k) [0..<?N]) XOR xsum (map (\<lambda>j. ?tp j ! k) [0..<?M])"
      using k by (simp add: xsum_append o_def)
    also have "map (\<lambda>i. ?cp i ! k) [0..<?N]
        = map (\<lambda>i. (pc i ! k) XOR xsum (map (\<lambda>j. ?A i j) [0..<?M])) [0..<?N]"
      using cpk by simp
    also have "map (\<lambda>j. ?tp j ! k) [0..<?M] = map (\<lambda>j. xsum (map (\<lambda>i. ?A i j) [0..<?N])) [0..<?M]"
      using tpk by simp
    also have "xsum (map (\<lambda>i. (pc i ! k) XOR xsum (map (\<lambda>j. ?A i j) [0..<?M])) [0..<?N])
        XOR xsum (map (\<lambda>j. xsum (map (\<lambda>i. ?A i j) [0..<?N])) [0..<?M])
        = xsum (map (\<lambda>i. pc i ! k) [0..<?N])"
      unfolding xsum_map_xor xsum_swap[of "\<lambda>i j. ?A i j" "[0..<?M]" "[0..<?N]"]
      by (simp add: xor.assoc)
    also have "\<dots> = cell ! k" using cell k by simp
    finally show "?buf ! k = cell ! k" .
  qed
  show ?thesis
    unfolding dcnetRound_def cts tts using dec buf by (simp add: Let_def)
qed

lemma padTo_full: "int (length P) = n \<Longrightarrow> padTo n P = P"
  by (auto simp: padTo_def)

text \<open>
  Entities that the constructor builds from pairwise shared secrets (the \<open>j\<close>-th key
  of client \<open>i\<close> is the \<open>i\<close>-th key of trustee \<open>j\<close>) are at round 0 with their
  generators pairwise in the same state, and agree on the content size and the flags.
\<close>

lemma NewDCNetEntity_fields:
  assumes "NewDCNetEntity suite entityID role messageSize equivocation disruption ks = Inr e"
  shows "Entity e = role \<and> currentRound e = 0
    \<and> EquivocationProtectionEnabled e = equivocation
    \<and> DisruptionProtectionEnabled e = disruption
    \<and> DCNetContentSize e = messageSize - (if equivocation then ScalarLen suite else 0)
    \<and> sharedPRNGs e = (if role \<noteq> DCNET_RELAY then map (snd \<circ> seedPRNG suite) ks else [])"
  using assms by (auto simp: NewDCNetEntity_def Let_def split: if_splits)

lemma NewDCNetEntity_pairwiseShared:
  assumes cl: "\<forall>i < length cls.
        NewDCNetEntity suite (cid i) DCNET_CLIENT messageSize equivocation disruption (ckeys i)
          = Inr (cls ! i) \<and> length (ckeys i) = length trs"
    and tr: "\<forall>j < length trs.
        NewDCNetEntity suite (tid j) DCNET_TRUSTEE messageSize equivocation disruption (tkeys j)
          = Inr (trs ! j) \<and> length (tkeys j) = length cls"
    and sh: "\<forall>i < length cls. \<forall>j < length trs. ckeys i ! j = tkeys j ! i"
  shows "pairwiseShared cls trs 0"
    and "\<forall>e \<in> set cls. sameSetup e DCNET_CLIENT
            (messageSize - (if equivocation then ScalarLen suite else 0)) equivocation disruption"
    and "\<forall>e \<in> set trs. sameSetup e DCNET_TRUSTEE
            (messageSize - (if equivocation then ScalarLen suite else 0)) equivocation disruption"
proof -
  have c: "sharedPRNGs (cls ! i) = map (snd \<circ> seedPRNG suite) (ckeys i)
      \<and> currentRound (cls ! i) = 0 \<and> length (ckeys i) = length trs
      \<and> sameSetup (cls ! i) DCNET_CLIENT
            (messageSize - (if equivocation then ScalarLen suite else 0)) equivocation disruption"
    if "i < length cls" for i
    using cl that NewDCNetEntity_fields[of suite "cid i" DCNET_CLIENT messageSize equivocation
        disruption "ckeys i" "cls ! i"]
    by (simp add: sameSetup_def)
  have t: "sharedPRNGs (trs ! j) = map (snd \<circ> seedPRNG suite) (tkeys j)
      \<and> currentRound (trs ! j) = 0 \<and> length (tkeys j) = length cls
      \<and> sameSetup (trs ! j) DCNET_TRUSTEE
            (messageSize - (if equivocation then ScalarLen suite else 0)) equivocation disruption"
    if "j < length trs" for j
    using tr that NewDCNetEntity_fields[of suite "tid j" DCNET_TRUSTEE messageSize equivocation
        disruption "tkeys j" "trs ! j"]
    by (simp add: sameSetup_def)
  show "pairwiseShared cls trs 0"
    unfolding pairwiseShared_def using c t sh by simp
  show "\<forall>e \<in> set cls. sameSetup e DCNET_CLIENT
            (messageSize - (if equivocation then ScalarLen suite else 0)) equivocation disruption"
    using c by (auto simp: in_set_conv_nth)
  show "\<forall>e \<in> set trs. sameSetup e DCNET_TRUSTEE
            (messageSize - (if equivocation then ScalarLen suite else 0)) equivocation disruption"
    using t by (auto simp: in_set_conv_nth)
qed

text \<open>
  Claim C1 (as amended). Take any number of clients and trustees, all at the same
  round \<open>r0\<close>, such that the generator that client \<open>i\<close> shares with trustee \<open>j\<close> and
  the one that trustee \<open>j\<close> shares with client \<open>i\<close> are in the same state (as they are
  when the constructor has seeded both from the secret the two share, lemma
  \<open>NewDCNetEntity_pairwiseShared\<close>), with equivocation protection off, with or without
  disruption protection, and any round \<open>r \<ge> r0\<close>. If every participant encodes one
  cell for round \<open>r\<close> (the slot owner, if any, a payload \<open>P\<close> no longer than the usable
  payload size, everybody else \<open>nil\<close>), then \<open>DecodeStart\<close>, \<open>DecodeClient\<close> and
  \<open>DecodeTrustee\<close> on every cipher, and \<open>DecodeCell\<close> return the owner's payload
  zero-padded to the usable payload size, as \<open>clientEncode\<close> pads it. That is the
  all-zero cell when nobody owns the slot, and \<open>P\<close> itself only when \<open>P\<close> fills the
  cell. The owner may be any of the clients.
\<close>

theorem dcnet_round_trip:
  assumes shared: "pairwiseShared cls trs r0" and r: "r0 \<le> r"
    and cl: "\<forall>e \<in> set cls. sameSetup e DCNET_CLIENT cs False dis"
    and tr: "\<forall>e \<in> set trs. sameSetup e DCNET_TRUSTEE cs False dis"
    and rl: "sameSetup relay DCNET_RELAY cs False dis"
    and ps: "0 \<le> GetPayloadSize relay"
    and slot: "validSlot (length cls) (GetPayloadSize relay) slot"
    and hm: "\<forall>key m. length (H key m) = 32"
  shows "dcnetRound H relay cls trs r slot = Inr (expectedCell (GetPayloadSize relay) slot)
    \<and> (\<forall>i P. slot = Some (i, P) \<and> int (length P) = GetPayloadSize relay
          \<longrightarrow> dcnetRound H relay cls trs r slot = Inr P)"
proof -
  from rl have frl: "DCNetContentSize relay = cs" "DisruptionProtectionEnabled relay = dis"
    by (simp_all add: sameSetup_def)
  define n where "n = GetPayloadSize relay"
  have n: "n = (if dis then cs - 32 else cs)"
    by (simp add: n_def GetPayloadSize_def frl DISRUPTION_PROTECTION_CONTRIB_LENGTH_def)
  have n0: "0 \<le> n" using ps by (simp add: n_def)
  have cs: "0 \<le> cs" using n n0 by (auto split: if_splits)
  have dis32: "dis \<Longrightarrow> 32 \<le> cs" using n n0 by simp
  define mac where "mac i = computeHmac256 H (EntityID (cls ! i)) []" for i
  have lmac: "length (mac i) = 32" for i by (simp add: mac_def computeHmac256_def hm)
  define cellOf where "cellOf i P = (if dis then mac i @ padTo n P else padTo n P)" for i P
  define pc where "pc i = (case payloadOf slot i of None \<Rightarrow> replicate (nat cs) 0 | Some P \<Rightarrow> cellOf i P)" for i
  define cell where "cell = (case slot of None \<Rightarrow> replicate (nat cs) 0 | Some (i, P) \<Rightarrow> cellOf i P)"
  have lcellOf: "length (cellOf i P) = nat cs" if "int (length P) \<le> n" for i P
    using that n dis32 by (auto simp: cellOf_def lmac length_padTo)
  have gps: "GetPayloadSize (cls ! i) = n" "DisruptionProtectionEnabled (cls ! i) = dis"
    "DCNetContentSize (cls ! i) = cs" if "i < length cls" for i
    using cl that n by (auto simp: sameSetup_def GetPayloadSize_def DISRUPTION_PROTECTION_CONTRIB_LENGTH_def)
  have plain: "\<forall>i < length cls.
        clientPlaintext H (cls ! i) (isOwner slot i) (payloadOf slot i) = Inr (pc i)
        \<and> length (pc i) = nat cs
        \<and> int (length (case payloadOf slot i of None \<Rightarrow> [] | Some p \<Rightarrow> p)) \<le> cs"
  proof (intro allI impI)
    fix i assume i: "i < length cls"
    show "clientPlaintext H (cls ! i) (isOwner slot i) (payloadOf slot i) = Inr (pc i)
        \<and> length (pc i) = nat cs
        \<and> int (length (case payloadOf slot i of None \<Rightarrow> [] | Some p \<Rightarrow> p)) \<le> cs"
    proof (cases "payloadOf slot i")
      case None
      then show ?thesis
        using clientPlaintext_None[of "cls ! i" H "isOwner slot i"] gps[OF i] cs
        by (simp add: pc_def)
    next
      case (Some P)
      then have sl: "slot = Some (i, P)"
        by (auto simp: payloadOf_def split: option.splits if_splits)
      then have lp: "int (length P) \<le> n" using slot by (simp add: validSlot_def n_def)
      have own: "isOwner slot i" using sl by (simp add: isOwner_def)
      have "clientPlaintext H (cls ! i) True (Some P) = Inr (cellOf i P)"
        using clientPlaintext_Some[of P "cls ! i" H True] gps[OF i] lp
        by (simp add: cellOf_def mac_def)
      moreover have "int (length P) \<le> cs" using lp n by (auto split: if_splits)
      ultimately show ?thesis
        using Some own lcellOf[OF lp] by (simp add: pc_def)
    qed
  qed
  have lcell: "length cell = nat cs"
    using slot by (auto simp: cell_def validSlot_def n_def[symmetric] lcellOf split: option.splits)
  have sums: "\<forall>k < nat cs. xsum (map (\<lambda>i. pc i ! k) [0..<length cls]) = cell ! k"
  proof (intro allI impI)
    fix k assume k: "k < nat cs"
    show "xsum (map (\<lambda>i. pc i ! k) [0..<length cls]) = cell ! k"
    proof (cases slot)
      case None
      then have "pc i ! k = 0" for i using k by (simp add: pc_def payloadOf_def)
      then show ?thesis using None k by (simp add: xsum_zero cell_def)
    next
      case (Some a)
      obtain j P where a: "a = (j, P)" by (cases a)
      have j: "j < length cls" using slot Some a by (simp add: validSlot_def)
      have "pc i ! k = (if i = j then cell ! k else 0)" for i
        using Some a k by (simp add: pc_def payloadOf_def cell_def)
      then show ?thesis using j by (simp add: xsum_single)
    qed
  qed
  have main: "dcnetRound H relay cls trs r slot =
     (if dis then (if cs < 32 then Inl SliceOutOfRange else Inr (drop 32 cell)) else Inr cell)"
    by (rule dcnet_cells_cancel[OF shared r cl tr rl cs plain lcell sums])
  have fin: "(if dis then drop 32 cell else cell) = expectedCell n slot"
  proof (cases slot)
    case None
    then show ?thesis using n by (auto simp: cell_def expectedCell_def)
  next
    case (Some a)
    then show ?thesis by (cases a) (auto simp: cell_def expectedCell_def cellOf_def lmac)
  qed
  have res: "dcnetRound H relay cls trs r slot = Inr (expectedCell n slot)"
    using main fin dis32 by (auto split: if_splits)
  show ?thesis
    using res by (auto simp: n_def expectedCell_def padTo_full)
qed

theorem dcnet_round_trip_witness:
  "dcnetRound demoHmac demoRelay [demoClient 0, demoClient 1] [demoTrustee 0, demoTrustee 1] 2
     (Some (1, [72, 73, 33])) = Inr [72, 73, 33]
   \<and> dcnetRound demoHmac demoRelay [demoClient 0, demoClient 1] [demoTrustee 0, demoTrustee 1] 2
     None = Inr [0, 0, 0]"
proof -
  have e: "NewDCNetEntity demoSuite i role 3 False False ks =
      Inr \<lparr>EntityID = i, Entity = role, EquivocationProtectionEnabled = False,
           DisruptionProtectionEnabled = False, DCNetMessageSize = 3, DCNetContentSize = 3,
           sharedKeys = map fst (if role \<noteq> DCNET_RELAY then map (seedPRNG demoSuite) ks else []),
           sharedPRNGs = map snd (if role \<noteq> DCNET_RELAY then map (seedPRNG demoSuite) ks else []),
           currentRound = 0, DCNetRoundDecoder = None, equivocationProtection = None,
           equivocationContribLength = 0\<rparr>" for i role ks
    by (simp add: NewDCNetEntity_def DISRUPTION_PROTECTION_CONTRIB_LENGTH_def Let_def)
  have sh: "pairwiseShared [demoClient 0, demoClient 1] [demoTrustee 0, demoTrustee 1] 0"
    by (simp add: pairwiseShared_def demoClient_def demoTrustee_def e less_Suc_eq all_conj_distrib)
  have cl: "\<forall>e \<in> set [demoClient 0, demoClient 1]. sameSetup e DCNET_CLIENT 3 False False"
    by (simp add: sameSetup_def demoClient_def e)
  have tr: "\<forall>e \<in> set [demoTrustee 0, demoTrustee 1]. sameSetup e DCNET_TRUSTEE 3 False False"
    by (simp add: sameSetup_def demoTrustee_def e)
  have rl: "sameSetup demoRelay DCNET_RELAY 3 False False"
    by (simp add: sameSetup_def demoRelay_def e)
  have gp: "GetPayloadSize demoRelay = 3"
    by (simp add: GetPayloadSize_def demoRelay_def e)
  have hm: "\<forall>key m. length (demoHmac key m) = 32" by (simp add: demoHmac_def)
  have r: "(0::int) \<le> 2" by simp
  have ps: "0 \<le> GetPayloadSize demoRelay" by (simp add: gp)
  have s1: "validSlot (length [demoClient 0, demoClient 1]) (GetPayloadSize demoRelay) (Some (1, [72, 73, 33]))"
    by (simp add: validSlot_def gp)
  have s2: "validSlot (length [demoClient 0, demoClient 1]) (GetPayloadSize demoRelay) None"
    by (simp add: validSlot_def)
  show ?thesis
    using dcnet_round_trip[OF sh r cl tr rl ps s1 hm] dcnet_round_trip[OF sh r cl tr rl ps s2 hm]
    by (simp add: gp expectedCell_def padTo_def numeral_3_eq_3)
qed

text \<open>
  The claim as stated promises exactly the payload. Client 1 owns the slot of a cell
  of three bytes and encodes the one-byte payload \<open>[72]\<close>: the relay decodes the padded
  cell \<open>[72, 0, 0]\<close>.
\<close>

theorem dcnet_round_trip_counterexample:
  "dcnetRound demoHmac demoRelay [demoClient 0, demoClient 1] [demoTrustee 0, demoTrustee 1] 2
     (Some (1, [72])) = Inr [72, 0, 0]
   \<and> dcnetRound demoHmac demoRelay [demoClient 0, demoClient 1] [demoTrustee 0, demoTrustee 1] 2
     (Some (1, [72])) \<noteq> Inr [72]"
  by code_simp

lemma skipRounds_round:
  "skipRounds e r = Inr e' \<Longrightarrow> currentRound e \<le> r \<Longrightarrow> currentRound e' = r"
proof (induction e r rule: skipRounds.induct)
  case (1 e roundID)
  show ?case
  proof (cases "currentRound e < roundID")
    case False
    then show ?thesis using "1.prems" by (simp add: skipRounds.simps[of e roundID])
  next
    case True
    from "1.prems"(1) True obtain dummy gs where
      pp: "preparePads (DCNetContentSize e) (sharedPRNGs e) = Inr (dummy, gs)"
      and rec: "skipRounds (e\<lparr>sharedPRNGs := gs, currentRound := currentRound e + 1\<rparr>) roundID = Inr e'"
      by (auto simp: skipRounds.simps[of e roundID] split: sum.splits)
    show ?thesis
      using "1.IH"[OF True pp refl rec] True by simp
  qed
qed

lemma clientEncode_round: "clientEncode H e so pl = Inr (c, e') \<Longrightarrow> currentRound e' = currentRound e"
  by (auto simp: clientEncode_def Let_def split: sum.splits prod.splits if_splits option.splits)

lemma trusteeEncode_round: "trusteeEncode e = Inr (c, e') \<Longrightarrow> currentRound e' = currentRound e"
  by (auto simp: trusteeEncode_def Let_def split: sum.splits prod.splits if_splits option.splits)

text \<open>
  Claim C2 (as amended). For an entity at round \<open>currentRound e\<close> and a requested round
  \<open>roundID\<close>: the call fails when \<open>roundID\<close> is in the past; it fails with
  \<open>PayloadTooLong\<close> when the payload is longer than \<open>DCNetContentSize\<close>; otherwise the
  skipping loop draws and drops \<open>DCNetContentSize\<close> bytes from every shared generator
  for every skipped round, \<open>(roundID - currentRound e) * DCNetContentSize\<close> bytes per
  generator in all, and sets the counter to \<open>roundID\<close>; the cell is then encoded by the
  entity in that state, and the counter of the entity returned is \<open>roundID\<close>.
  The amount dropped per round is the content size, not the message (payload) size:
  the two differ by the length of the equivocation tag.
\<close>

theorem EncodeForRound_rounds:
  "(roundID < currentRound e \<longrightarrow> isl (EncodeForRound H e roundID so pl))
   \<and> (DCNetContentSize e < int (length (payloadBytes pl))
        \<longrightarrow> EncodeForRound H e roundID so pl = Inl PayloadTooLong)
   \<and> (currentRound e \<le> roundID \<and> 0 \<le> DCNetContentSize e
        \<longrightarrow> skipRounds e roundID =
              Inr (e\<lparr>sharedPRNGs :=
                       map (advance (nat (roundID - currentRound e) * nat (DCNetContentSize e)))
                         (sharedPRNGs e),
                     currentRound := roundID\<rparr>))
   \<and> (\<forall>e'. currentRound e \<le> roundID \<and> int (length (payloadBytes pl)) \<le> DCNetContentSize e
          \<and> skipRounds e roundID = Inr e'
        \<longrightarrow> EncodeForRound H e roundID so pl =
              (if Entity e' = DCNET_CLIENT then clientEncode H e' so pl else trusteeEncode e'))
   \<and> (\<forall>c e'. EncodeForRound H e roundID so pl = Inr (c, e') \<longrightarrow> currentRound e' = roundID)"
proof (intro conjI impI allI)
  assume "roundID < currentRound e"
  then show "isl (EncodeForRound H e roundID so pl)"
    by (simp add: EncodeForRound_def)
next
  assume "DCNetContentSize e < int (length (payloadBytes pl))"
  then show "EncodeForRound H e roundID so pl = Inl PayloadTooLong"
    by (simp add: EncodeForRound_def payloadBytes_def)
next
  assume "currentRound e \<le> roundID \<and> 0 \<le> DCNetContentSize e"
  then show "skipRounds e roundID =
      Inr (e\<lparr>sharedPRNGs :=
               map (advance (nat (roundID - currentRound e) * nat (DCNetContentSize e))) (sharedPRNGs e),
             currentRound := roundID\<rparr>)"
    using skipRounds_eq[of e roundID] by simp
next
  fix e'
  assume "currentRound e \<le> roundID \<and> int (length (payloadBytes pl)) \<le> DCNetContentSize e
          \<and> skipRounds e roundID = Inr e'"
  then show "EncodeForRound H e roundID so pl =
              (if Entity e' = DCNET_CLIENT then clientEncode H e' so pl else trusteeEncode e')"
    by (simp add: EncodeForRound_def payloadBytes_def)
next
  fix c e'
  assume enc: "EncodeForRound H e roundID so pl = Inr (c, e')"
  then have r: "currentRound e \<le> roundID"
    by (auto simp: EncodeForRound_def split: if_splits)
  from enc obtain e1 where sk: "skipRounds e roundID = Inr e1"
    and e1: "(if Entity e1 = DCNET_CLIENT then clientEncode H e1 so pl else trusteeEncode e1) = Inr (c, e')"
    by (auto simp: EncodeForRound_def split: if_splits sum.splits)
  have "currentRound e1 = roundID" using skipRounds_round[OF sk r] .
  moreover have "currentRound e' = currentRound e1"
    using e1 clientEncode_round trusteeEncode_round by (auto split: if_splits)
  ultimately show "currentRound e' = roundID" by simp
qed

lemma demoProtectedTrustee_eq:
  "demoProtectedTrustee =
     \<lparr>EntityID = 0, Entity = DCNET_TRUSTEE, EquivocationProtectionEnabled = True,
      DisruptionProtectionEnabled = True, DCNetMessageSize = 72, DCNetContentSize = 40,
      sharedKeys = [advance 2 (demoKey 0 0)],
      sharedPRNGs = [\<lparr>keystream = NewCipher demoSuite (padOf 2 (demoKey 0 0)), consumed = 0\<rparr>],
      currentRound = 0, DCNetRoundDecoder = None,
      equivocationProtection = Some (NewEquivocation demoSuite),
      equivocationContribLength = 32\<rparr>"
proof -
  have "seedPRNG demoSuite k = (advance 2 k, \<lparr>keystream = NewCipher demoSuite (padOf 2 k), consumed = 0\<rparr>)" for k
    using XORKeyStream_zeros[of k 2] by (simp add: seedPRNG_def demoSuite_def)
  then show ?thesis
    by (simp add: demoProtectedTrustee_def NewDCNetEntity_def
        DISRUPTION_PROTECTION_CONTRIB_LENGTH_def Let_def) (simp add: demoSuite_def)
qed

theorem EncodeForRound_rounds_witness:
  "isl (EncodeForRound demoHmac demoProtectedTrustee (- 1) False None)
   \<and> EncodeForRound demoHmac demoProtectedTrustee 0 False (Some (replicate 41 0)) = Inl PayloadTooLong
   \<and> skipRounds demoProtectedTrustee 2 =
        Inr (demoProtectedTrustee\<lparr>sharedPRNGs := map (advance 80) (sharedPRNGs demoProtectedTrustee),
                                  currentRound := 2\<rparr>)
   \<and> EncodeForRound demoHmac demoProtectedTrustee 2 False None =
        trusteeEncode (demoProtectedTrustee\<lparr>sharedPRNGs := map (advance 80) (sharedPRNGs demoProtectedTrustee),
                                  currentRound := 2\<rparr>)"
proof -
  note t = EncodeForRound_rounds[of _ demoProtectedTrustee demoHmac False]
  have f: "currentRound demoProtectedTrustee = 0" "DCNetContentSize demoProtectedTrustee = 40"
    "Entity demoProtectedTrustee = DCNET_TRUSTEE"
    by (simp_all add: demoProtectedTrustee_eq)
  have a: "isl (EncodeForRound demoHmac demoProtectedTrustee (- 1) False None)"
    using t[of "- 1" None] f by simp
  have b: "EncodeForRound demoHmac demoProtectedTrustee 0 False (Some (replicate 41 0)) = Inl PayloadTooLong"
    using t[of 0 "Some (replicate 41 0)"] f by (simp add: payloadBytes_def)
  have c: "skipRounds demoProtectedTrustee 2 =
        Inr (demoProtectedTrustee\<lparr>sharedPRNGs := map (advance 80) (sharedPRNGs demoProtectedTrustee),
                                  currentRound := 2\<rparr>)"
    using t[of 2 None] f by simp
  have d: "EncodeForRound demoHmac demoProtectedTrustee 2 False None =
        trusteeEncode (demoProtectedTrustee\<lparr>sharedPRNGs := map (advance 80) (sharedPRNGs demoProtectedTrustee),
                                  currentRound := 2\<rparr>)"
    using t[of 2 None] c f by (simp add: payloadBytes_def)
  show ?thesis using a b c d by simp
qed

text \<open>
  A trustee built with both protections on, message size 72 and scalars of 32 bytes,
  has content size 40 and usable payload size 8. Skipping one round takes 40 bytes
  from its generator: neither 72 nor 8.
\<close>

theorem EncodeForRound_skip_counterexample:
  "DCNetMessageSize demoProtectedTrustee = 72
   \<and> GetPayloadSize demoProtectedTrustee = 8
   \<and> map consumed (sharedPRNGs demoProtectedTrustee) = [0]
   \<and> map consumed (sharedPRNGs (projr (skipRounds demoProtectedTrustee 1))) = [40]
   \<and> \<not> isl (skipRounds demoProtectedTrustee 1)"
proof -
  have "skipRounds demoProtectedTrustee 1 =
      Inr (demoProtectedTrustee\<lparr>sharedPRNGs := map (advance 40) (sharedPRNGs demoProtectedTrustee),
                                 currentRound := 1\<rparr>)"
    using skipRounds_eq[of demoProtectedTrustee 1] by (simp add: demoProtectedTrustee_eq)
  then show ?thesis
    by (simp add: demoProtectedTrustee_eq GetPayloadSize_def advance_def
        DISRUPTION_PROTECTION_CONTRIB_LENGTH_def)
qed

subsection \<open>\<open>DecodeCell\<close> and the two protections\<close>

lemma DecodeCell_plain:
  "\<not> EquivocationProtectionEnabled e \<Longrightarrow> DCNetRoundDecoder e = Some d \<Longrightarrow>
   DecodeCell e =
     (if DisruptionProtectionEnabled e
      then (if length (xorBuffer d) < 32 then Inl SliceOutOfRange else Inr (drop 32 (xorBuffer d)))
      else Inr (xorBuffer d))"
  by (simp add: DecodeCell_def DISRUPTION_PROTECTION_CONTRIB_LENGTH_def)

lemma DecodeCell_equivocation_disruption:
  "EquivocationProtectionEnabled e \<Longrightarrow> DisruptionProtectionEnabled e \<Longrightarrow>
   DCNetRoundDecoder e = Some d \<Longrightarrow> equivocationProtection e = Some eq \<Longrightarrow>
   DecodeCell e =
     (let decoded = RelayDecode eq (xorBuffer d) (equivTrusteeContribs d) (equivClientContribs d)
      in if length decoded < 32 then Inl SliceOutOfRange else Inr (drop 32 decoded))"
  by (simp add: DecodeCell_def DISRUPTION_PROTECTION_CONTRIB_LENGTH_def Let_def)

text \<open>
  Claim C3. With equivocation protection enabled and disruption protection disabled,
  \<open>DecodeCell\<close> computes \<open>RelayDecode\<close> and then returns the XOR buffer all the same:
  its last statement is \<open>return d.xorBuffer\<close>, not \<open>return decoded\<close>. The claim holds
  in the other three combinations of the flags (the two lemmas above).
\<close>

theorem DecodeCell_ignores_RelayDecode:
  "EquivocationProtectionEnabled e \<and> \<not> DisruptionProtectionEnabled e
   \<and> DCNetRoundDecoder e = Some d \<and> equivocationProtection e = Some eq
   \<longrightarrow> DecodeCell e = Inr (xorBuffer d)"
  by (simp add: DecodeCell_def)

lemma demoEquivocationRelay_eq:
  "demoEquivocationRelay =
     \<lparr>EntityID = 0, Entity = DCNET_RELAY, EquivocationProtectionEnabled = True,
      DisruptionProtectionEnabled = False, DCNetMessageSize = 35, DCNetContentSize = 3,
      sharedKeys = [], sharedPRNGs = [], currentRound = 0,
      DCNetRoundDecoder =
        Some \<lparr>currentRoundBeingDecoded = 1, xorBuffer = [1, 2, 3],
              equivTrusteeContribs = [], equivClientContribs = [Some [9]]\<rparr>,
      equivocationProtection = Some (NewEquivocation demoSuite),
      equivocationContribLength = 32\<rparr>"
  by (simp add: demoEquivocationRelay_def NewDCNetEntity_def DecodeStart_def DecodeClient_def
      make_bytes_def xorInto_def DISRUPTION_PROTECTION_CONTRIB_LENGTH_def Let_def
      demoSuite_def numeral_3_eq_3)

theorem DecodeCell_ignores_RelayDecode_witness:
  "DecodeCell demoEquivocationRelay = Inr [1, 2, 3]
   \<and> RelayDecode (NewEquivocation demoSuite) [1, 2, 3] [] [Some [9]] = [254, 253, 252]"
  using DecodeCell_ignores_RelayDecode[of demoEquivocationRelay _ "NewEquivocation demoSuite"]
  by (simp add: demoEquivocationRelay_eq) (simp add: demoSuite_def)

subsection \<open>The two HMAC keys\<close>

text \<open>
  Claim C9. For every client id the relay's key (\<open>client-secret\<close> followed by the id)
  differs from the DC-net entity's key (\<open>secret-client-\<close> followed by the id), and
  validating an HMAC that \<open>computeHmac256\<close> produced compares the HMACs of the message
  under these two keys.
\<close>

theorem hmac_keys_differ:
  "relayHmacKey i \<noteq> dcnetHmacKey i
   \<and> ValidateHmac256 H m (computeHmac256 H i m) i = (H (dcnetHmacKey i) m = H (relayHmacKey i) m)"
  by (simp add: relayHmacKey_def dcnetHmacKey_def ValidateHmac256_def computeHmac256_def)

section \<open>Properties of the Neff shuffle\<close>


lemma length_fold_update [simp]:
  "length (fold (\<lambda>(i, w) acc. acc[w := Some (f i)]) ps acc) = length acc"
  by (induction ps arbitrary: acc) (simp_all add: split_beta)




lemma length_permuteKeys [simp]: "length (permuteKeys perm ks) = length ks"
  by (simp add: permuteKeys_def)







lemma demoShuffledView_eq:
  "demoShuffledView =
     \<lparr>TrusteeId = 0, PrivateKey = 11, PublicKey = 11, SecretCoeff = Some 7, Shares = Some 7,
      Proof = Some (replicate 50 0), EphemeralKeys = Some [35, 14, 21]\<rparr>"
  by (simp add: demoShuffledView_def ReceivedShuffleFromRelay_def permuteKeys_def demoGroup_def
      demoView_def Let_def)



subsection \<open>The trustee's check of the transcript\<close>

lemma verifyShuffles_None: "verifyShuffles G shuffledPublicKeys proofs js failed = None"
  by (induction js arbitrary: failed) (simp_all add: Let_def)

lemma marshalKeys_verifier:
  "marshalKeys (G\<lparr>HashVerify := v\<rparr>) row js = marshalKeys G row js"
  by (induction js) (simp_all split: option.split)

lemma transcriptBlob_verifier:
  "transcriptBlob (G\<lparr>HashVerify := v\<rparr>) shares spk n = transcriptBlob G shares spk n"
  by (simp add: transcriptBlob_def marshalKeys_verifier Let_def split: option.split)

lemma ReceivedTranscriptFromRelay_signed:
  assumes "ReceivedTranscriptFromRelay G t shares spk proofs = Inr msg"
  shows "\<exists>tShares tProof tKeys blob.
      Shares t = Some tShares \<and> Proof t = Some tProof \<and> EphemeralKeys t = Some tKeys
      \<and> ownPermutationFound tShares tProof tKeys (length (spk ! 0)) shares spk proofs
            [0..<length shares] False = Inr True
      \<and> transcriptBlob G shares spk (length (spk ! 0)) = Inr blob
      \<and> msg = \<lparr>TrusteeID = TrusteeId t, Sig = SchnorrSign G blob (PrivateKey t)\<rparr>"
  using assms
  by (auto simp: ReceivedTranscriptFromRelay_def verifyShuffles_None Let_def
      split: option.splits if_splits sum.splits)

text \<open>
  Claim C4. The claim says that a trustee returns an error without signing when a
  shuffle proof of the transcript fails verification. The code runs the verifier and
  then overwrites its verdict (\<open>verify = true\<close>, marked \<open>TODO: This shuffle needs to be
  fixed\<close>), so the outcome of \<open>ReceivedTranscriptFromRelay\<close> is the same whatever the
  verifier answers. A signature is returned only when the loop that looks for the
  trustee's own entry succeeds (lemma \<open>ReceivedTranscriptFromRelay_signed\<close>); that
  loop compares the shares, the proof and the first \<open>len(shuffledPublicKeys[0])\<close> keys
  of an entry with the stored ones.
\<close>

theorem ReceivedTranscriptFromRelay_verifier:
  "ReceivedTranscriptFromRelay (G\<lparr>HashVerify := v\<rparr>) t shares spk proofs
     = ReceivedTranscriptFromRelay G t shares spk proofs"
  by (simp add: ReceivedTranscriptFromRelay_def verifyShuffles_None transcriptBlob_verifier Let_def
      split: option.split sum.split)

text \<open>
  Trustee 0, whose own shuffle is the first entry, gets a transcript whose second
  entry is no shuffle of the first and carries a proof that the verifier rejects; it
  signs the final shares and keys, as it does under a verifier that accepts.
\<close>

theorem transcript_signed_despite_failed_proof:
  "HashVerify demoGroup [35, 14, 21] [1, 1, 1] [255] = False
   \<and> ReceivedTranscriptFromRelay demoGroup demoShuffledView [7, 21] [[35, 14, 21], [1, 1, 1]]
        [replicate 50 0, [255]]
      = Inr \<lparr>TrusteeID = 0, Sig = [21, 1, 1, 1, 11]\<rparr>
   \<and> ReceivedTranscriptFromRelay (demoGroup\<lparr>HashVerify := \<lambda>X Xbar proof. True\<rparr>)
        demoShuffledView [7, 21] [[35, 14, 21], [1, 1, 1]] [replicate 50 0, [255]]
      = Inr \<lparr>TrusteeID = 0, Sig = [21, 1, 1, 1, 11]\<rparr>"
proof -
  have v: "HashVerify demoGroup [35, 14, 21] [1, 1, 1] [255] = False"
    by (simp add: demoGroup_def)
  have r: "ReceivedTranscriptFromRelay demoGroup demoShuffledView [7, 21] [[35, 14, 21], [1, 1, 1]]
        [replicate 50 0, [255]]
      = Inr \<lparr>TrusteeID = 0, Sig = [21, 1, 1, 1, 11]\<rparr>"
    by (simp add: ReceivedTranscriptFromRelay_def demoShuffledView_eq verifyShuffles_None
        transcriptBlob_def Let_def upt_rec numeral_2_eq_2 numeral_3_eq_3)
       (simp add: demoGroup_def)
  show ?thesis
    using ReceivedTranscriptFromRelay_verifier[where G = demoGroup and v = "\<lambda>X Xbar proof. True"
        and t = demoShuffledView and shares = "[7, 21]" and spk = "[[35, 14, 21], [1, 1, 1]]"
        and proofs = "[replicate 50 0, [255]]"] v r
    by simp
qed

section \<open>Properties of the relay\<close>

subsection \<open>A rejected parameters message\<close>

lemma bindP_if:
  "bindP (if c then Inr a else Inl e) f = (if c then f a else Inl e)"
  by (simp add: bindP_def)

lemma IntValueOrElse_if:
  "IntValueOrElse m key d =
     (if intOrAbsent m key
      then Inr (case Params m key of Some (IntData i) \<Rightarrow> i | _ \<Rightarrow> d)
      else Inl InterfaceConversion)"
  by (simp add: IntValueOrElse_def intOrAbsent_def split: option.split Interface.split)

lemma BoolValueOrElse_if:
  "BoolValueOrElse m key d =
     (if boolOrAbsent m key
      then Inr (case Params m key of Some (BoolData b) \<Rightarrow> b | _ \<Rightarrow> d)
      else Inl InterfaceConversion)"
  by (simp add: BoolValueOrElse_def boolOrAbsent_def split: option.split Interface.split)

lemma StringValueOrElse_if:
  "StringValueOrElse m key d =
     (if stringOrAbsent m key
      then Inr (case Params m key of Some (StringData s) \<Rightarrow> s | _ \<Rightarrow> d)
      else Inl InterfaceConversion)"
  by (simp add: StringValueOrElse_def stringOrAbsent_def split: option.split Interface.split)

lemmas readParameters_chain =
  readParameters_def IntValueOrElse_if BoolValueOrElse_if StringValueOrElse_if bindP_if

lemma readParameters_payloadSize:
  "readParameters rs msg = Inr v \<Longrightarrow> Params msg ''PayloadSize'' = Some (IntData n)
   \<Longrightarrow> pv_payloadSize v = n"
  unfolding readParameters_chain by (auto split: if_splits)

lemma readParameters_windowSize:
  "readParameters rs msg = Inr v \<Longrightarrow> Params msg ''WindowSize'' = Some (IntData n)
   \<Longrightarrow> pv_windowSize v = n"
  unfolding readParameters_chain by (auto split: if_splits)

lemma readParameters_wellTyped:
  "wellTyped msg \<Longrightarrow> \<exists>v. readParameters rs msg = Inr v"
  unfolding readParameters_chain by (simp add: wellTyped_def)





subsection \<open>The counter of non-acked downstream packets\<close>

lemma stateMachine_fold_SendToClient:
  "stateMachine (fold (\<lambda>i q. SendToClientWithLog q i (m i)) xs p) = stateMachine p"
  by (induction xs arbitrary: p) (simp_all add: SendToClientWithLog_def)

lemma stateMachine_fold_SendToTrustee:
  "stateMachine (fold (\<lambda>i q. SendToTrusteeWithLog q i (m i)) xs p) = stateMachine p"
  by (induction xs arbitrary: p) (simp_all add: SendToTrusteeWithLog_def)

lemma stateMachine_sendDown: "stateMachine (sendDown p m) = stateMachine p"
  by (simp add: sendDown_def stateMachine_fold_SendToClient BroadcastToAllClientsWithLog_def)

lemma downstreamPhase1_counter:
  "numberOfNonAckedDownstreamPackets (relayState (downstreamPhase1_openRoundAndSendData ops p))
     = numberOfNonAckedDownstreamPackets (relayState p) + 1"
  "stateMachine (downstreamPhase1_openRoundAndSendData ops p) = stateMachine p"
  by (simp_all add: downstreamPhase1_openRoundAndSendData_def setState_def relayState_sendDown
      stateMachine_sendDown Let_def split_beta)

lemma sendLoop_counter:
  "numberOfNonAckedDownstreamPackets (relayState (sendLoop ops p i))
     = numberOfNonAckedDownstreamPackets (relayState p)
       + (if i < WindowSize (relayState p) then WindowSize (relayState p) - i else 0)
   \<and> WindowSize (relayState (sendLoop ops p i)) = WindowSize (relayState p)
   \<and> stateMachine (sendLoop ops p i) = stateMachine p"
proof (induction ops p i rule: sendLoop.induct)
  case (1 ops p i)
  show ?case
  proof (cases "i < WindowSize (relayState p)")
    case True
    then show ?thesis
      using "1.IH"[OF True]
      by (subst (1 2 3) sendLoop.simps)
         (simp add: downstreamPhase1_counter WindowSize_downstreamPhase1)
  next
    case False
    then show ?thesis by (subst (1 2 3) sendLoop.simps) simp
  qed
qed

lemma sendMany_counter:
  "numberOfNonAckedDownstreamPackets (relayState (downstreamPhase_sendMany ops p))
     = max (numberOfNonAckedDownstreamPackets (relayState p)) (WindowSize (relayState p))"
  "WindowSize (relayState (downstreamPhase_sendMany ops p)) = WindowSize (relayState p)"
  "stateMachine (downstreamPhase_sendMany ops p) = stateMachine p"
  using sendLoop_counter[of ops p "numberOfNonAckedDownstreamPackets (relayState p)"]
  by (auto simp: downstreamPhase_sendMany_def)

lemma relayState_SHUTDOWN: "relayState (Received_ALL_ALL_SHUTDOWN p) = relayState p"
  by (simp add: Received_ALL_ALL_SHUTDOWN_def Let_def relayState_fold_SendToClient
      relayState_fold_SendToTrustee ChangeState_def)

lemma stateMachine_SHUTDOWN: "stateMachine (Received_ALL_ALL_SHUTDOWN p) = ''SHUTDOWN''"
  by (simp add: Received_ALL_ALL_SHUTDOWN_def Let_def stateMachine_fold_SendToClient
      stateMachine_fold_SendToTrustee ChangeState_def)

lemma finalizeRound_counter:
  "numberOfNonAckedDownstreamPackets (relayState (upstreamPhase3_finalizeRound ops p roundID))
     = numberOfNonAckedDownstreamPackets (relayState p) - 1"
  "WindowSize (relayState (upstreamPhase3_finalizeRound ops p roundID)) = WindowSize (relayState p)"
  by (simp_all add: upstreamPhase3_finalizeRound_def setState_def Let_def relayState_SHUTDOWN)

lemma storeDisruptionData_counter:
  "numberOfNonAckedDownstreamPackets (relayState (storeDisruptionData sha r pt p))
     = numberOfNonAckedDownstreamPackets (relayState p)"
  "WindowSize (relayState (storeDisruptionData sha r pt p)) = WindowSize (relayState p)"
  by (simp_all add: storeDisruptionData_def setState_def Let_def relayState_fold_SendToClient
      relayState_fold_SendToTrustee)

lemma setState_counter:
  assumes "\<And>rs. numberOfNonAckedDownstreamPackets (f rs) = numberOfNonAckedDownstreamPackets rs"
    and "\<And>rs. WindowSize (f rs) = WindowSize rs"
  shows "numberOfNonAckedDownstreamPackets (relayState (setState p f))
           = numberOfNonAckedDownstreamPackets (relayState p)"
    and "WindowSize (relayState (setState p f)) = WindowSize (relayState p)"
  using assms by (simp_all add: setState_def)

lemma extractPayload_counter:
  fixes p :: "'a PriFiLibRelayInstance"
  shows "numberOfNonAckedDownstreamPackets (relayState (snd (upstreamPhase2b_extractPayload ops sha p pt ct)))
     = numberOfNonAckedDownstreamPackets (relayState p)
   \<and> WindowSize (relayState (snd (upstreamPhase2b_extractPayload ops sha p pt ct)))
     = WindowSize (relayState p)"
proof -
  define keeps where "keeps q \<longleftrightarrow>
      numberOfNonAckedDownstreamPackets (relayState q) = numberOfNonAckedDownstreamPackets (relayState p)
      \<and> WindowSize (relayState q) = WindowSize (relayState p)" for q :: "'a PriFiLibRelayInstance"
  define r where "r = CurrentRound ops (roundManager (relayState p))"
  define p1 where "p1 =
      (if EquivocationProtectionEnabled' (relayState p) \<and> DisruptionProtectionEnabled' (relayState p)
       then setState p (\<lambda>rs. rs\<lparr>HashOfLastUpstreamMessage := sha ct,
              LastMessageOfClients := (LastMessageOfClients rs)(r \<mapsto> ct)\<rparr>)
       else p)"
  define p2 where "p2 =
      (if DisruptionProtectionEnabled' (relayState p1) then storeDisruptionData sha r pt p1 else p1)"
  define plain where "plain = (if DisruptionProtectionEnabled' (relayState p1) then tl pt else pt)"
  define p3 where "p3 =
      (if length plain \<ge> 2 \<and> be_uint (take 2 plain) = 43690
       then setState p2 (\<lambda>rs. rs\<lparr>PriorityDataForClients := PriorityDataForClients rs @ [plain]\<rparr>)
       else p2)"
  define p4 where "p4 =
      (if DataOutputEnabled (relayState p3)
       then setState p3 (\<lambda>rs. rs\<lparr>DataFromDCNet := DataFromDCNet rs @ [plain]\<rparr>)
       else p3)"
  have k1: "keeps p1" by (simp add: keeps_def p1_def setState_def)
  have k2: "keeps p2" using k1 by (simp add: keeps_def p2_def storeDisruptionData_counter)
  have k3: "keeps p3" using k2 by (simp add: keeps_def p3_def setState_def)
  have k4: "keeps p4" using k3 by (simp add: keeps_def p4_def setState_def)
  have "upstreamPhase2b_extractPayload ops sha p pt ct =
      (if DisruptionProtectionEnabled' (relayState p1) \<and> pt = []
       then (Some (Crash IndexOutOfRange), p1)
       else if int (length plain) \<noteq>
                 PayloadSize (relayState p3)
                 - (if DisruptionProtectionEnabled' (relayState p3) then 1 else 0)
                 - (if EquivocationProtectionEnabled' (relayState p3) then 16 else 0)
            then (Some (Error ''Relay : DecodeCell produced wrong-size payload''), p3)
            else (None, p4))"
    unfolding upstreamPhase2b_extractPayload_def Let_def p4_def p3_def plain_def p2_def p1_def r_def ..
  then have "keeps (snd (upstreamPhase2b_extractPayload ops sha p pt ct))"
    using k1 k3 k4 by simp
  then show ?thesis by (simp add: keeps_def)
qed

lemma processCiphers_counter:
  assumes "upstreamPhase1_processCiphers ops sha p decoded schedule = Inr p'"
  shows "numberOfNonAckedDownstreamPackets (relayState p')
           = max (numberOfNonAckedDownstreamPackets (relayState p) - 1) (WindowSize (relayState p))"
    and "WindowSize (relayState p') = WindowSize (relayState p)"
proof -
  define extracted where "extracted =
     (case decoded of
        None \<Rightarrow> (None, p)
      | Some (upstreamPlaintext, ciphertext) \<Rightarrow>
          if OpenClosedSlotsRequestsRoundID (relayState p) (CurrentRound ops (roundManager (relayState p))) \<noteq> None
          then (None, setState p (\<lambda>rs. rs\<lparr>roundManager :=
                         SetStoredRoundSchedule ops (roundManager rs) schedule\<rparr>))
          else upstreamPhase2b_extractPayload ops sha p upstreamPlaintext ciphertext)"
  have ex: "numberOfNonAckedDownstreamPackets (relayState (snd extracted))
      = numberOfNonAckedDownstreamPackets (relayState p)
      \<and> WindowSize (relayState (snd extracted)) = WindowSize (relayState p)"
    using extractPayload_counter[of ops sha p]
    by (auto simp: extracted_def setState_def split: option.splits)
  have p': "p' = downstreamPhase_sendMany ops
      (upstreamPhase3_finalizeRound ops (snd extracted) (CurrentRound ops (roundManager (relayState p))))"
  proof -
    have "upstreamPhase1_processCiphers ops sha p decoded schedule =
        (case fst extracted of
           Some (Crash err) \<Rightarrow> Inl err
         | _ \<Rightarrow> Inr (downstreamPhase_sendMany ops
                    (upstreamPhase3_finalizeRound ops (snd extracted)
                       (CurrentRound ops (roundManager (relayState p))))))"
      unfolding upstreamPhase1_processCiphers_def Let_def extracted_def ..
    then show ?thesis using assms by (auto split: option.splits failure.splits)
  qed
  show "numberOfNonAckedDownstreamPackets (relayState p')
           = max (numberOfNonAckedDownstreamPackets (relayState p) - 1) (WindowSize (relayState p))"
    and "WindowSize (relayState p') = WindowSize (relayState p)"
    using ex by (simp_all add: p' sendMany_counter finalizeRound_counter)
qed

lemma shuffleSig_counter:
  assumes "Received_TRU_REL_SHUFFLE_SIG ops p collected verified = (None, p')"
  shows "p' = p \<or> (numberOfNonAckedDownstreamPackets (relayState p') = 1
                    \<and> stateMachine p' = ''COMMUNICATING'')"
    and "WindowSize (relayState p') = WindowSize (relayState p)"
  using assms
  by (auto simp: Received_TRU_REL_SHUFFLE_SIG_def Let_def setState_def ChangeState_def
      relayState_fold_SendToClient stateMachine_fold_SendToClient
      split: sum.splits if_splits)

lemma relayState_BroadcastParameters: "relayState (BroadcastParameters p) = relayState p"
  by (simp add: BroadcastParameters_def Let_def relayState_fold_SendToTrustee)

lemma stateMachine_BroadcastParameters: "stateMachine (BroadcastParameters p) = stateMachine p"
  by (simp add: BroadcastParameters_def Let_def stateMachine_fold_SendToTrustee)

lemma parameters_counter:
  assumes "Received_ALL_ALL_PARAMETERS ops p msg = (None, p')"
  shows "numberOfNonAckedDownstreamPackets (relayState p') = 0"
    and "stateMachine p' = stateMachine p \<or> stateMachine p' = ''COLLECTING_TRUSTEES_PKS''"
  using assms
  by (auto simp: Received_ALL_ALL_PARAMETERS_def Let_def setState_def ChangeState_def
      assignParameters_def relayState_BroadcastParameters stateMachine_BroadcastParameters
      split: sum.splits if_splits)

lemma reachable_invariant:
  "reachable ops sha p \<Longrightarrow> 1 \<le> WindowSize (relayState p) \<Longrightarrow>
   0 \<le> numberOfNonAckedDownstreamPackets (relayState p)
   \<and> numberOfNonAckedDownstreamPackets (relayState p) \<le> WindowSize (relayState p)
   \<and> (stateMachine p = ''COMMUNICATING'' \<longrightarrow> 1 \<le> numberOfNonAckedDownstreamPackets (relayState p))"
proof (induction rule: reachable.induct)
  case (by_parameters p msg p')
  then show ?case using parameters_counter[OF by_parameters(2)] by auto
next
  case (by_setup p p')
  then show ?case by (auto simp: setupStates_def)
next
  case (by_signature p collected verified p')
  then show ?case
    using shuffleSig_counter[OF by_signature(3)] by auto
next
  case (by_round p decoded schedule p')
  then show ?case
    using processCiphers_counter[OF by_round(3)] by auto
next
  case (by_other p p')
  then show ?case by simp
next
  case (by_shutdown p)
  then show ?case
    by (simp add: relayState_SHUTDOWN stateMachine_SHUTDOWN)
qed

lemma parameters_window:
  assumes "Received_ALL_ALL_PARAMETERS ops p msg = (None, p')"
    and "Params msg ''WindowSize'' = Some (IntData w)"
  shows "WindowSize (relayState p') = w"
proof -
  obtain v where v: "readParameters (relayState p) msg = Inr v"
    using assms(1) by (cases "readParameters (relayState p) msg")
      (auto simp: Received_ALL_ALL_PARAMETERS_def)
  have w: "pv_windowSize v = w" using readParameters_windowSize[OF v assms(2)] .
  show ?thesis
    using assms(1) v w
    by (auto simp: Received_ALL_ALL_PARAMETERS_def Let_def setState_def ChangeState_def
        assignParameters_def relayState_BroadcastParameters split: if_splits)
qed

lemma reachable_after_setup:
  assumes idle: "stateMachine p0 = ''IDLE''"
    and par: "Received_ALL_ALL_PARAMETERS ops p0 msg = (None, p1)"
    and st: "stateMachine p1 \<in> set setupStates"
    and sig: "Received_TRU_REL_SHUFFLE_SIG ops (p1\<lparr>stateMachine := ''COLLECTING_SHUFFLE_SIGNATURES''\<rparr>)
                collected verified = (None, p2)"
  shows "reachable ops sha p2"
proof -
  have r1: "reachable ops sha p1" using idle par by (rule reachable.by_parameters)
  have r2: "reachable ops sha (p1\<lparr>stateMachine := ''COLLECTING_SHUFFLE_SIGNATURES''\<rparr>)"
    by (rule reachable.by_setup[OF r1 st]) (simp_all add: setupStates_def)
  show ?thesis by (rule reachable.by_signature[OF r2 _ sig]) simp
qed

lemma demoConfigured_eq:
  "Received_ALL_ALL_PARAMETERS demoOps demoIdleRelay (demoParameters 100 w) = (None, demoConfigured w)"
proof -
  have wt: "wellTyped (demoParameters 100 w)"
    by (simp add: wellTyped_def demoParameters_def Add_def emptyParameters_def
        boolOrAbsent_def intOrAbsent_def stringOrAbsent_def)
  obtain v where v: "readParameters (relayState demoIdleRelay) (demoParameters 100 w) = Inr v"
    using readParameters_wellTyped[OF wt] by blast
  have ps: "pv_payloadSize v = 100"
    by (rule readParameters_payloadSize[OF v])
       (simp add: demoParameters_def Add_def emptyParameters_def)
  have nc: "pv_nClients v = 2 \<and> pv_nTrustees v = 1 \<and> pv_dcNetType v = ''Simple''"
    using v unfolding readParameters_chain
    by (auto simp: demoParameters_def Add_def emptyParameters_def demoIdleRelay_def
        demoRelayState_def split: if_splits)
  have "fst (Received_ALL_ALL_PARAMETERS demoOps demoIdleRelay (demoParameters 100 w)) = None"
    using v ps nc by (simp add: Received_ALL_ALL_PARAMETERS_def Let_def)
  then show ?thesis by (simp add: demoConfigured_def prod_eq_iff)
qed

lemma readParameters_startNow:
  "readParameters rs msg = Inr v \<Longrightarrow> Params msg ''StartNow'' = Some (BoolData b)
   \<Longrightarrow> pv_startNow v = b"
  unfolding readParameters_chain by (auto split: if_splits)

lemma parameters_started:
  assumes "Received_ALL_ALL_PARAMETERS ops p msg = (None, p')"
    and "Params msg ''StartNow'' = Some (BoolData True)"
  shows "stateMachine p' = ''COLLECTING_TRUSTEES_PKS''"
proof -
  obtain v where v: "readParameters (relayState p) msg = Inr v"
    using assms(1) by (cases "readParameters (relayState p) msg")
      (auto simp: Received_ALL_ALL_PARAMETERS_def)
  have w: "pv_startNow v" using readParameters_startNow[OF v assms(2)] by simp
  show ?thesis
    using assms(1) v w
    by (auto simp: Received_ALL_ALL_PARAMETERS_def Let_def ChangeState_def
        stateMachine_BroadcastParameters split: if_splits)
qed

lemma demoConfigured_state: "stateMachine (demoConfigured w) = ''COLLECTING_TRUSTEES_PKS''"
  by (rule parameters_started[OF demoConfigured_eq])
     (simp add: demoParameters_def Add_def emptyParameters_def)

lemma demoCommunicating_eq:
  "Received_TRU_REL_SHUFFLE_SIG demoOps
     ((demoConfigured w)\<lparr>stateMachine := ''COLLECTING_SHUFFLE_SIGNATURES''\<rparr>)
     (Inr True) (Inr (MSG_REL_CLI_TELL_EPH_PKS_AND_TRUSTEES_SIG [])) = (None, demoCommunicating w)"
  by (simp add: demoCommunicating_def prod_eq_iff Received_TRU_REL_SHUFFLE_SIG_def Let_def)

lemma demoCommunicating_reachable: "reachable demoOps sha (demoCommunicating w)"
  by (rule reachable_after_setup[OF _ demoConfigured_eq _ demoCommunicating_eq])
     (simp_all add: demoIdleRelay_def demoConfigured_state setupStates_def)

lemma demoCommunicating_counter:
  "numberOfNonAckedDownstreamPackets (relayState (demoCommunicating w)) = 1"
  "WindowSize (relayState (demoCommunicating w)) = w"
proof -
  have w: "WindowSize (relayState (demoConfigured w)) = w"
    by (rule parameters_window[OF demoConfigured_eq])
       (simp add: demoParameters_def Add_def emptyParameters_def)
  show "numberOfNonAckedDownstreamPackets (relayState (demoCommunicating w)) = 1"
    by (simp add: demoCommunicating_def Received_TRU_REL_SHUFFLE_SIG_def Let_def setState_def)
  show "WindowSize (relayState (demoCommunicating w)) = w"
    using w
    by (simp add: demoCommunicating_def Received_TRU_REL_SHUFFLE_SIG_def Let_def setState_def
        ChangeState_def relayState_fold_SendToClient)
qed

text \<open>
  Claim C8 (as amended). When the window size is at least 1, the counter of non-acked
  downstream packets lies between 0 and \<open>WindowSize\<close> in every state that the relay
  reaches. The parameters set it to 0, the last shuffle signature sets it to 1 and
  enters \<open>COMMUNICATING\<close>, a downstream send adds one, \<open>downstreamPhase_sendMany\<close> sends
  only while the counter is below \<open>WindowSize\<close> (it leaves a relay whose counter has
  reached the window as it is, and raises a smaller counter to the window), and
  finalizing a round subtracts exactly one.
\<close>

theorem nonAcked_within_window:
  "(reachable ops sha p \<and> 1 \<le> WindowSize (relayState p) \<longrightarrow>
      0 \<le> numberOfNonAckedDownstreamPackets (relayState p)
      \<and> numberOfNonAckedDownstreamPackets (relayState p) \<le> WindowSize (relayState p))
   \<and> (fst (Received_ALL_ALL_PARAMETERS ops q msg) = None \<longrightarrow>
        numberOfNonAckedDownstreamPackets (relayState (snd (Received_ALL_ALL_PARAMETERS ops q msg))) = 0)
   \<and> numberOfNonAckedDownstreamPackets
        (relayState (snd (Received_TRU_REL_SHUFFLE_SIG ops q (Inr True) (Inr m)))) = 1
   \<and> stateMachine (snd (Received_TRU_REL_SHUFFLE_SIG ops q (Inr True) (Inr m))) = ''COMMUNICATING''
   \<and> numberOfNonAckedDownstreamPackets (relayState (downstreamPhase1_openRoundAndSendData ops q))
        = numberOfNonAckedDownstreamPackets (relayState q) + 1
   \<and> (WindowSize (relayState q) \<le> numberOfNonAckedDownstreamPackets (relayState q) \<longrightarrow>
        downstreamPhase_sendMany ops q = q)
   \<and> numberOfNonAckedDownstreamPackets (relayState (downstreamPhase_sendMany ops q))
        = max (numberOfNonAckedDownstreamPackets (relayState q)) (WindowSize (relayState q))
   \<and> numberOfNonAckedDownstreamPackets (relayState (upstreamPhase3_finalizeRound ops q roundID))
        = numberOfNonAckedDownstreamPackets (relayState q) - 1"
proof -
  have a: "reachable ops sha p \<and> 1 \<le> WindowSize (relayState p) \<longrightarrow>
      0 \<le> numberOfNonAckedDownstreamPackets (relayState p)
      \<and> numberOfNonAckedDownstreamPackets (relayState p) \<le> WindowSize (relayState p)"
    using reachable_invariant[of ops sha p] by blast
  have b: "fst (Received_ALL_ALL_PARAMETERS ops q msg) = None \<longrightarrow>
        numberOfNonAckedDownstreamPackets (relayState (snd (Received_ALL_ALL_PARAMETERS ops q msg))) = 0"
    using parameters_counter(1)[of ops q msg "snd (Received_ALL_ALL_PARAMETERS ops q msg)"]
    by (simp add: prod_eq_iff)
  have c: "numberOfNonAckedDownstreamPackets
        (relayState (snd (Received_TRU_REL_SHUFFLE_SIG ops q (Inr True) (Inr m)))) = 1
      \<and> stateMachine (snd (Received_TRU_REL_SHUFFLE_SIG ops q (Inr True) (Inr m))) = ''COMMUNICATING''"
    by (simp add: Received_TRU_REL_SHUFFLE_SIG_def Let_def setState_def ChangeState_def
        stateMachine_fold_SendToClient)
  have d: "WindowSize (relayState q) \<le> numberOfNonAckedDownstreamPackets (relayState q) \<longrightarrow>
        downstreamPhase_sendMany ops q = q"
    by (simp add: downstreamPhase_sendMany_def sendLoop.simps)
  show ?thesis
    using a b c d downstreamPhase1_counter(1)[of ops q] sendMany_counter(1)[of ops q]
      finalizeRound_counter(1)[of ops q roundID]
    by blast
qed

theorem nonAcked_within_window_witness:
  "reachable demoOps (\<lambda>bs. bs) (demoCommunicating 2)
   \<and> WindowSize (relayState (demoCommunicating 2)) = 2
   \<and> numberOfNonAckedDownstreamPackets (relayState (demoCommunicating 2)) = 1
   \<and> 0 \<le> numberOfNonAckedDownstreamPackets (relayState (demoCommunicating 2))
   \<and> numberOfNonAckedDownstreamPackets (relayState (demoCommunicating 2))
        \<le> WindowSize (relayState (demoCommunicating 2))
   \<and> fst (Received_ALL_ALL_PARAMETERS demoOps demoIdleRelay (demoParameters 100 2)) = None
   \<and> numberOfNonAckedDownstreamPackets (relayState (demoConfigured 2)) = 0
   \<and> numberOfNonAckedDownstreamPackets
        (relayState (downstreamPhase_sendMany demoOps (demoCommunicating 2))) = 2"
proof -
  have r: "reachable demoOps (\<lambda>bs. bs) (demoCommunicating 2)"
    by (rule demoCommunicating_reachable)
  have f: "fst (Received_ALL_ALL_PARAMETERS demoOps demoIdleRelay (demoParameters 100 2)) = None"
    by (simp add: demoConfigured_eq)
  have s: "snd (Received_ALL_ALL_PARAMETERS demoOps demoIdleRelay (demoParameters 100 2))
      = demoConfigured 2"
    by (simp add: demoConfigured_eq)
  show ?thesis
    using nonAcked_within_window[of demoOps "\<lambda>bs. bs" "demoCommunicating 2" demoIdleRelay
        "demoParameters 100 2"]
      nonAcked_within_window[of demoOps "\<lambda>bs. bs" "demoCommunicating 2" "demoCommunicating 2"]
      r f s
    by (simp add: demoCommunicating_counter)
qed

text \<open>
  The claim as stated speaks of every reachable state, whatever the window size. The
  relay takes a window size of 0 from the parameters as it comes; the last shuffle
  signature then sets the counter to 1, above the window.
\<close>

theorem nonAcked_window_counterexample:
  "stateMachine demoIdleRelay = ''IDLE''
   \<and> Received_ALL_ALL_PARAMETERS demoOps demoIdleRelay (demoParameters 100 0)
       = (None, demoConfigured 0)
   \<and> Received_TRU_REL_SHUFFLE_SIG demoOps
        ((demoConfigured 0)\<lparr>stateMachine := ''COLLECTING_SHUFFLE_SIGNATURES''\<rparr>)
        (Inr True) (Inr (MSG_REL_CLI_TELL_EPH_PKS_AND_TRUSTEES_SIG [])) = (None, demoCommunicating 0)
   \<and> reachable demoOps (\<lambda>bs. bs) (demoCommunicating 0)
   \<and> stateMachine (demoCommunicating 0) = ''COMMUNICATING''
   \<and> WindowSize (relayState (demoCommunicating 0)) = 0
   \<and> numberOfNonAckedDownstreamPackets (relayState (demoCommunicating 0)) = 1
   \<and> \<not> numberOfNonAckedDownstreamPackets (relayState (demoCommunicating 0))
         \<le> WindowSize (relayState (demoCommunicating 0))"
proof -
  have st: "stateMachine (demoCommunicating 0) = ''COMMUNICATING''"
    by (simp add: demoCommunicating_def Received_TRU_REL_SHUFFLE_SIG_def Let_def setState_def
        ChangeState_def stateMachine_fold_SendToClient)
  show ?thesis
    using demoCommunicating_reachable[of "\<lambda>bs. bs" 0] demoConfigured_eq[of 0]
      demoCommunicating_eq[of 0] st
    by (simp add: demoCommunicating_counter demoIdleRelay_def)
qed

subsection \<open>The echo of the disruption protection\<close>

lemma messageSender_fold_SendToClient:
  "messageSender (fold (\<lambda>i q. SendToClientWithLog q i (m i)) xs p)
     = messageSender p @ map (\<lambda>i. (ToClient i, m i)) xs"
  by (induction xs arbitrary: p) (simp_all add: SendToClientWithLog_def)

lemma messageSender_sendDown:
  "messageSender (sendDown p c) =
     messageSender p @
       (if UseUDP (relayState p) then [(ToAllClients, MSG_REL_CLI_DOWNSTREAM_DATA_UDP c)]
        else map (\<lambda>i. (ToClient i, MSG_REL_CLI_DOWNSTREAM_DATA c)) (upto_int (nClients (relayState p))))"
  by (simp add: sendDown_def messageSender_fold_SendToClient BroadcastToAllClientsWithLog_def)

lemma messageSender_downstreamPhase1:
  "messageSender (downstreamPhase1_openRoundAndSendData ops p) =
     messageSender p @
       (if UseUDP (relayState p)
        then [(ToAllClients, MSG_REL_CLI_DOWNSTREAM_DATA_UDP (downstreamMessage ops (relayState p)))]
        else map (\<lambda>i. (ToClient i, MSG_REL_CLI_DOWNSTREAM_DATA (downstreamMessage ops (relayState p))))
               (upto_int (nClients (relayState p))))"
  by (simp add: downstreamPhase1_openRoundAndSendData_def Let_def split_beta setState_def
      messageSender_sendDown)

lemma echo_Data:
  assumes "DisruptionProtectionEnabled' rs"
    and "BEchoFlags rs (lastRoundClosed ops (roundManager rs)) = Some 1"
  shows "Data (downstreamMessage ops rs) =
     padDown rs (LastMessageOfClients rs
       (sub32 (lastRoundClosed ops (roundManager rs)) (int32 (nClients rs))))"
  using assms
  by (simp add: downstreamMessage_def downstreamContent_def echoContent_def Let_def split_beta)

lemma storeDisruptionData_stores:
  "BEchoFlags (relayState (storeDisruptionData sha r pt q)) r = Some (hd pt)"
  "\<not> EquivocationProtectionEnabled' (relayState q) \<Longrightarrow>
     LastMessageOfClients (relayState (storeDisruptionData sha r pt q)) r = Some (tl pt)"
  by (simp_all add: storeDisruptionData_def Let_def setState_def relayState_fold_SendToClient
      relayState_fold_SendToTrustee)

text \<open>
  Claim C6 (as amended). The relay stores the first byte of the decoded upstream cell
  of a round as that round's \<open>b_echo_last\<close> flag and, with equivocation protection off,
  the rest of the cell as the round's message. With disruption protection enabled, if
  the flag stored for the round closed last is 1, the next downstream cell carries the
  message stored for the round \<open>nClients\<close> rounds before the round closed last (\<open>nil\<close>
  when nothing is stored for it; zero-padded to \<open>DownstreamCellSize\<close> when
  \<open>UseDummyDataDown\<close> asks for it), not the data queued for the clients. That is the
  round before the one that requested the echo only for a single client. The cell
  goes to every client, one message each, or in one UDP broadcast.
\<close>

theorem echo_retransmits_stored_round:
  "(DisruptionProtectionEnabled' (relayState p)
      \<and> BEchoFlags (relayState p) (lastRoundClosed ops (roundManager (relayState p))) = Some 1
    \<longrightarrow> Data (downstreamMessage ops (relayState p)) =
          padDown (relayState p)
            (LastMessageOfClients (relayState p)
               (sub32 (lastRoundClosed ops (roundManager (relayState p)))
                  (int32 (nClients (relayState p))))))
   \<and> messageSender (downstreamPhase1_openRoundAndSendData ops p) =
       messageSender p @
         (if UseUDP (relayState p)
          then [(ToAllClients, MSG_REL_CLI_DOWNSTREAM_DATA_UDP (downstreamMessage ops (relayState p)))]
          else map (\<lambda>i. (ToClient i, MSG_REL_CLI_DOWNSTREAM_DATA (downstreamMessage ops (relayState p))))
                 (upto_int (nClients (relayState p))))
   \<and> BEchoFlags (relayState (storeDisruptionData sha r pt q)) r = Some (hd pt)
   \<and> (\<not> EquivocationProtectionEnabled' (relayState q) \<longrightarrow>
        LastMessageOfClients (relayState (storeDisruptionData sha r pt q)) r = Some (tl pt))"
  using echo_Data[of "relayState p" ops] messageSender_downstreamPhase1[of ops p]
    storeDisruptionData_stores[where sha = sha and r = r and pt = pt and q = q]
  by blast

theorem echo_retransmits_stored_round_witness:
  "DisruptionProtectionEnabled' (relayState demoEchoRelay)
   \<and> lastRoundClosed demoOps (roundManager (relayState demoEchoRelay)) = 11
   \<and> BEchoFlags (relayState demoEchoRelay) 11 = Some 1
   \<and> nClients (relayState demoEchoRelay) = 3
   \<and> LastMessageOfClients (relayState demoEchoRelay) 8 = Some [8, 8]
   \<and> Data (downstreamMessage demoOps (relayState demoEchoRelay)) = Some [8, 8]
   \<and> sentCells (messageSender (downstreamPhase1_openRoundAndSendData demoOps demoEchoRelay))
       = map (\<lambda>i. (ToClient i, downstreamMessage demoOps (relayState demoEchoRelay))) [0, 1, 2]"
proof -
  have f: "DisruptionProtectionEnabled' (relayState demoEchoRelay)"
    "lastRoundClosed demoOps (roundManager (relayState demoEchoRelay)) = 11"
    "BEchoFlags (relayState demoEchoRelay) 11 = Some 1"
    "nClients (relayState demoEchoRelay) = 3"
    "LastMessageOfClients (relayState demoEchoRelay) 8 = Some [8, 8]"
    "\<not> UseUDP (relayState demoEchoRelay)"
    "\<not> UseDummyDataDown (relayState demoEchoRelay)"
    "messageSender demoEchoRelay = []"
    by (simp_all add: demoEchoRelay_def demoRelayState_def demoOps_def)
  have s: "sub32 11 (int32 3) = 8" by (simp add: sub32_def int32_def)
  have u: "upto_int 3 = [0, 1, 2]" by (simp add: upto_int_def numeral_3_eq_3)
  show ?thesis
    using echo_retransmits_stored_round[where p = demoEchoRelay and ops = demoOps
        and sha = "\<lambda>bs. bs" and r = 11 and pt = "[1, 11, 11]" and q = demoEchoRelay] f
    by (simp add: s u padDown_def sentCells_def)
qed

text \<open>
  The claim as stated names the round before the one that requested the echo. Three
  clients; the relay processes the rounds 8 to 11, and the cell of round 11 carries
  \<open>b_echo_last = 1\<close>. The downstream cell that follows (round 12) carries the message
  of round 8, \<open>[8, 8]\<close>, while the message of round 10, \<open>[10, 10]\<close>, is in the history.
\<close>

theorem echo_round_counterexample:
  "BEchoFlags (relayState demoEchoRun) 11 = Some 1
   \<and> lastRoundClosed demoOps (roundManager (relayState demoEchoRun)) = 11
   \<and> LastMessageOfClients (relayState demoEchoRun) 10 = Some [10, 10]
   \<and> LastMessageOfClients (relayState demoEchoRun) 8 = Some [8, 8]
   \<and> map (\<lambda>(d, c). (RoundID c, Data c)) (sentCells (messageSender demoEchoRun)) =
       replicate 3 (9, Some [0]) @ replicate 3 (10, Some [0]) @ replicate 3 (11, Some [0])
       @ replicate 3 (12, Some [8, 8])
   \<and> drop 9 (sentCells (messageSender demoEchoRun)) =
       map (\<lambda>i. (ToClient i,
          \<lparr>RoundID = 12, OwnershipID = 0, HashOfPreviousUpstreamData = [11, 11],
           Data = Some [8, 8], FlagResync = False, FlagOpenClosedRequest = False\<rparr>)) [0, 1, 2]"
  by code_simp

subsection \<open>The rate limiter\<close>















end
